theory Spec2Isabelle
  imports Complex_Main "HOL-Library.Char_ord" "HOL-Library.List_Lexorder" "HOL-Library.AList"
begin

section \<open>Numbers as numpy sees them\<close>

text \<open>
  The pro forma computes with numpy float64 arrays. A value is a finite number, one of the
  two infinities, or not-a-number. Finite arithmetic is exact here (rationals): rounding
  and signed zeros are not modelled. The special values follow IEEE 754 as numpy applies
  it: a quotient by zero is an infinity (or NaN for 0/0), every comparison with NaN is
  false, and NaN propagates through arithmetic.
\<close>

datatype fl = Fin rat | PInf | NInf | NaN

instantiation fl :: "{plus, minus, uminus, times, inverse, ord}"
begin

fun uminus_fl :: "fl \<Rightarrow> fl" where
  "uminus_fl (Fin a) = Fin (- a)"
| "uminus_fl PInf = NInf"
| "uminus_fl NInf = PInf"
| "uminus_fl NaN = NaN"

fun plus_fl :: "fl \<Rightarrow> fl \<Rightarrow> fl" where
  "plus_fl (Fin a) (Fin b) = Fin (a + b)"
| "plus_fl NaN _ = NaN"
| "plus_fl _ NaN = NaN"
| "plus_fl PInf NInf = NaN"
| "plus_fl NInf PInf = NaN"
| "plus_fl PInf _ = PInf"
| "plus_fl _ PInf = PInf"
| "plus_fl NInf _ = NInf"
| "plus_fl _ NInf = NInf"

definition minus_fl :: "fl \<Rightarrow> fl \<Rightarrow> fl" where
  "minus_fl a b = a + (- b)"

fun times_fl :: "fl \<Rightarrow> fl \<Rightarrow> fl" where
  "times_fl (Fin a) (Fin b) = Fin (a * b)"
| "times_fl NaN _ = NaN"
| "times_fl _ NaN = NaN"
| "times_fl (Fin a) PInf = (if 0 < a then PInf else if a < 0 then NInf else NaN)"
| "times_fl (Fin a) NInf = (if 0 < a then NInf else if a < 0 then PInf else NaN)"
| "times_fl PInf (Fin b) = (if 0 < b then PInf else if b < 0 then NInf else NaN)"
| "times_fl NInf (Fin b) = (if 0 < b then NInf else if b < 0 then PInf else NaN)"
| "times_fl PInf PInf = PInf"
| "times_fl NInf NInf = PInf"
| "times_fl PInf NInf = NInf"
| "times_fl NInf PInf = NInf"

fun divide_fl :: "fl \<Rightarrow> fl \<Rightarrow> fl" where
  "divide_fl (Fin a) (Fin b) =
     (if b = 0 then (if 0 < a then PInf else if a < 0 then NInf else NaN)
      else Fin (a / b))"
| "divide_fl NaN _ = NaN"
| "divide_fl _ NaN = NaN"
| "divide_fl (Fin a) _ = Fin 0"
| "divide_fl PInf (Fin b) = (if b < 0 then NInf else PInf)"
| "divide_fl NInf (Fin b) = (if b < 0 then PInf else NInf)"
| "divide_fl PInf _ = NaN"
| "divide_fl NInf _ = NaN"

definition inverse_fl :: "fl \<Rightarrow> fl" where
  "inverse_fl a = divide (Fin 1) a"

fun less_fl :: "fl \<Rightarrow> fl \<Rightarrow> bool" where
  "less_fl (Fin a) (Fin b) = (a < b)"
| "less_fl NaN _ = False"
| "less_fl _ NaN = False"
| "less_fl _ NInf = False"
| "less_fl PInf _ = False"
| "less_fl NInf _ = True"
| "less_fl (Fin a) PInf = True"

fun less_eq_fl :: "fl \<Rightarrow> fl \<Rightarrow> bool" where
  "less_eq_fl (Fin a) (Fin b) = (a \<le> b)"
| "less_eq_fl NaN _ = False"
| "less_eq_fl _ NaN = False"
| "less_eq_fl NInf _ = True"
| "less_eq_fl _ PInf = True"
| "less_eq_fl PInf _ = False"
| "less_eq_fl (Fin a) NInf = False"

instance ..

end

fun isnan :: "fl \<Rightarrow> bool" where
  "isnan NaN = True"
| "isnan _ = False"

fun isinf :: "fl \<Rightarrow> bool" where
  "isinf PInf = True"
| "isinf NInf = True"
| "isinf _ = False"

fun isfinite :: "fl \<Rightarrow> bool" where
  "isfinite (Fin a) = True"
| "isfinite _ = False"

fun ceil :: "fl \<Rightarrow> fl" where
  "ceil (Fin a) = Fin (of_int \<lceil>a\<rceil>)"
| "ceil x = x"

definition float_max :: rat where
  "float_max = (2 ^ 53 - 1) * 2 ^ 971"

text \<open>\<open>np.nan_to_num\<close>: NaN becomes 0, an infinity the largest finite float of its sign.\<close>

fun nan_to_num :: "fl \<Rightarrow> fl" where
  "nan_to_num NaN = Fin 0"
| "nan_to_num PInf = Fin float_max"
| "nan_to_num NInf = Fin (- float_max)"
| "nan_to_num (Fin a) = Fin a"

text \<open>\<open>np.sum\<close> of a vector (0 for the empty one) and \<open>np.dot\<close> of two vectors.\<close>

definition npsum :: "fl list \<Rightarrow> fl" where
  "npsum xs = foldr (+) xs (Fin 0)"

definition npdot :: "fl list \<Rightarrow> fl list \<Rightarrow> fl" where
  "npdot xs ys = npsum (map2 (*) xs ys)"

text \<open>
  \<open>np.searchsorted(a, v)\<close> with the default \<open>side='left'\<close>. numpy bisects, with
  the comparison of its sort order, in which NaN comes after every number. The keys are
  searched one after another, and the bounds of a search start from the index found for
  the key before: the lower bound when the new key is larger, the upper bound otherwise.
  On an ascending array the result is the first index whose entry is not below the key;
  on any other array it is what the bisection happens to reach.
\<close>

definition npy_less :: "fl \<Rightarrow> fl \<Rightarrow> bool" where
  "npy_less a b = (a < b \<or> (isnan b \<and> \<not> isnan a))"

function binsearch :: "fl list \<Rightarrow> fl \<Rightarrow> nat \<Rightarrow> nat \<Rightarrow> nat" where
  "binsearch arr key_val min_idx max_idx =
     (if min_idx < max_idx then
        (if npy_less (arr ! (min_idx + (max_idx - min_idx) div 2)) key_val
         then binsearch arr key_val (min_idx + (max_idx - min_idx) div 2 + 1) max_idx
         else binsearch arr key_val min_idx (min_idx + (max_idx - min_idx) div 2))
      else min_idx)"
  by pat_completeness auto
termination
  by (relation "measure (\<lambda>(arr, key_val, min_idx, max_idx). max_idx - min_idx)") auto

declare binsearch.simps [simp del]

fun searchsorted_keys :: "fl list \<Rightarrow> fl \<Rightarrow> nat \<Rightarrow> fl list \<Rightarrow> nat list" where
  "searchsorted_keys arr last_key_val idx [] = []"
| "searchsorted_keys arr last_key_val idx (key_val # keys) =
     (let found =
        (if npy_less last_key_val key_val then binsearch arr key_val idx (length arr)
         else binsearch arr key_val 0 (if idx < length arr then idx + 1 else length arr))
      in found # searchsorted_keys arr key_val found keys)"

definition searchsorted :: "fl list \<Rightarrow> fl list \<Rightarrow> nat list" where
  "searchsorted arr keys =
     (case keys of [] \<Rightarrow> []
      | key_val # _ \<Rightarrow> searchsorted_keys arr key_val (length arr) keys)"

section \<open>Errors\<close>

datatype error =
    AssertionError
  | KeyError string
  | AttributeError string
  | UndefinedVariableError string
  | ValueError
  | TypeError
  | IndexError
  | UnboundLocalError

definition ebind :: "error + 'a \<Rightarrow> ('a \<Rightarrow> error + 'b) \<Rightarrow> error + 'b" where
  "ebind m f = (case m of Inl e \<Rightarrow> Inl e | Inr v \<Rightarrow> f v)"

text \<open>A dictionary is an association list; \<open>d[k]\<close> raises \<open>KeyError\<close> on a missing key.\<close>

definition getitem :: "(string \<times> 'v) list \<Rightarrow> string \<Rightarrow> error + 'v" where
  "getitem d k = (case map_of d k of None \<Rightarrow> Inl (KeyError k) | Some v \<Rightarrow> Inr v)"

text \<open>
  Elementwise arithmetic of two column vectors (shape (n, 1)) under numpy broadcasting:
  equal lengths combine pointwise, a vector of length one is stretched, anything else
  raises \<open>ValueError\<close>.
\<close>

definition bcast2 :: "(fl \<Rightarrow> fl \<Rightarrow> fl) \<Rightarrow> fl list \<Rightarrow> fl list \<Rightarrow> error + fl list" where
  "bcast2 f xs ys =
     (if length xs = length ys then Inr (map2 f xs ys)
      else (case xs of [x] \<Rightarrow> Inr (map (f x) ys)
            | _ \<Rightarrow> (case ys of [y] \<Rightarrow> Inr (map (\<lambda>x. f x y) xs)
                    | _ \<Rightarrow> Inl ValueError)))"

section \<open>The parameter set\<close>

text \<open>
  The constructor arguments of \<open>SqFtProForma\<close>. Python keeps them in attributes that
  \<open>_convert_types\<close> later overwrites with arrays, so the record is polymorphic in the
  fields that change type: forms, parking rates, the cost and construction-month tables,
  and the two optional lists.
\<close>

record ('fm, 'pr, 'cs, 'ft, 'pt) settings =
  parcel_sizes :: "fl list"
  fars :: "fl list"
  uses :: "string list"
  residential_uses :: "bool list"
  forms :: "(string \<times> 'fm) list"
  profit_factor :: fl
  building_efficiency :: fl
  parcel_coverage :: fl
  cap_rate :: fl
  parking_rates :: 'pr
  sqft_per_rate :: fl
  parking_configs :: "string list"
  costs :: 'cs
  heights_for_costs :: "fl list"
  parking_sqft_d :: "(string \<times> fl) list"
  parking_cost_d :: "(string \<times> fl) list"
  height_per_story :: fl
  max_retail_height :: fl
  max_industrial_height :: fl
  construction_months :: 'cs
  construction_sqft_for_months :: "fl list"
  loan_to_cost_ratio :: fl
  drawdown_factor :: fl
  interest_rate :: fl
  loan_fees :: fl
  residential_to_yearly :: bool
  forms_to_test :: 'ft
  only_built :: bool
  pass_through :: 'pt
  simple_zoning :: bool
  parcel_filter :: "string option"

text \<open>The declarative form: dictionaries keyed by use, form and parking configuration.\<close>

type_synonym config =
  "((string \<times> fl) list, (string \<times> fl) list, (string \<times> fl list) list,
    string list option, string list option) settings"

text \<open>After \<open>_convert_types\<close>: vectors and matrices aligned to the order of \<open>uses\<close>.\<close>

type_synonym ('z) converted =
  "(fl list, fl list, fl list list, string list, string list, 'z) settings_scheme"


section \<open>The reference table\<close>

text \<open>
  One reference frame per (form, parking configuration): a table indexed by the far grid.
  Every column is a vector over the grid.
\<close>

record ref_frame =
  ref_far :: "fl list"
  ref_pclsz :: "fl list"
  ref_building_sqft :: "fl list"
  ref_spaces :: "fl list"
  ref_park_sqft :: "fl list"
  ref_total_built_sqft :: "fl list"
  ref_parking_sqft_ratio :: "fl list"
  ref_stories :: "fl list"
  ref_height :: "fl list"
  ref_build_cost_sqft :: "fl list"
  ref_build_cost :: "fl list"
  ref_park_cost :: "fl list"
  ref_cost :: "fl list"
  ref_ave_cost_sqft :: "fl list"
  ref_construction_months :: "fl list"

text \<open>\<open>np.repeat(parcel_sizes, fars.size)\<close>, as a column.\<close>

definition tiled_parcel_sizes :: "'z converted \<Rightarrow> fl list" where
  "tiled_parcel_sizes p = concat (map (replicate (length (fars p))) (parcel_sizes p))"

text \<open>
  \<open>np.sum(uses_distrib * self.parking_rates)\<close>: both vectors are aligned to \<open>uses\<close>
  by \<open>_convert_types\<close>.
\<close>

definition weighted_parking_rate :: "'z converted \<Rightarrow> fl list \<Rightarrow> fl" where
  "weighted_parking_rate p uses_distrib = npsum (map2 (*) uses_distrib (parking_rates p))"

definition building_bulk :: "'z converted \<Rightarrow> fl list \<Rightarrow> string \<Rightarrow> error + fl list" where
  "building_bulk p uses_distrib parking_config =
     ebind (bcast2 (*) (parcel_sizes p) (fars p)) (\<lambda>bulk.
       if parking_config = ''deck'' then
         ebind (getitem (parking_sqft_d p) parking_config) (\<lambda>a.
           Inr (map (\<lambda>b. b / (Fin 1 + weighted_parking_rate p uses_distrib * a
                                  / sqft_per_rate p)) bulk))
       else Inr bulk)"

definition parking_stalls_of :: "'z converted \<Rightarrow> fl list \<Rightarrow> fl list \<Rightarrow> fl list" where
  "parking_stalls_of p uses_distrib bulk =
     map (\<lambda>b. b * weighted_parking_rate p uses_distrib / sqft_per_rate p) bulk"

definition park_sqft :: "'z converted \<Rightarrow> string \<Rightarrow> fl list \<Rightarrow> error + fl list" where
  "park_sqft p parking_config parking_stalls =
     (if parking_config \<in> set [''underground'', ''deck''] then
        ebind (getitem (parking_sqft_d p) parking_config) (\<lambda>a.
          Inr (map (\<lambda>s. s * a) parking_stalls))
      else if parking_config = ''surface'' then
        Inr (replicate (length parking_stalls) (Fin 0))
      else Inl TypeError)"

text \<open>
  The two masks of the surface branch: a story count below 0, then one above 5, becomes
  NaN. A NaN entry is outside both masks and stays NaN.
\<close>

definition mask_negative :: "fl \<Rightarrow> fl" where
  "mask_negative s = (if \<not> isnan s \<and> s < Fin 0 then NaN else s)"

definition mask_over_five :: "fl \<Rightarrow> fl" where
  "mask_over_five s = (if \<not> isnan s \<and> Fin 5 < s then NaN else s)"

definition stories_calc ::
  "'z converted \<Rightarrow> string \<Rightarrow> fl list \<Rightarrow> fl list \<Rightarrow> error + fl list" where
  "stories_calc p parking_config bulk parking_stalls =
     ebind
       (if parking_config = ''underground'' then
          bcast2 (/) bulk (tiled_parcel_sizes p)
        else if parking_config = ''deck'' then
          ebind (getitem (parking_sqft_d p) parking_config) (\<lambda>a.
          ebind (bcast2 (+) bulk (map (\<lambda>s. s * a) parking_stalls)) (\<lambda>num.
            bcast2 (/) num (tiled_parcel_sizes p)))
        else if parking_config = ''surface'' then
          ebind (getitem (parking_sqft_d p) parking_config) (\<lambda>a.
          ebind (bcast2 (-) (tiled_parcel_sizes p) (map (\<lambda>s. s * a) parking_stalls)) (\<lambda>den.
          ebind (bcast2 (/) bulk den) (\<lambda>q.
            Inr (map (mask_over_five \<circ> mask_negative) q))))
        else Inl UnboundLocalError)
       (\<lambda>st. Inr (map (\<lambda>s. s / parcel_coverage p) st))"

text \<open>
  \<open>_building_cost\<close>. The cost rows picked by the bracket indices form an array of shape
  (n, 1, u) for n entries and u uses; \<open>np.squeeze\<close> drops every axis of length one, so
  the product with the use mix is a vector only when n and u are both above one (or both
  one); the other shapes raise. A bracket index past the last cost row raises
  \<open>IndexError\<close>.
\<close>

definition building_cost_calc :: "'z converted \<Rightarrow> fl list \<Rightarrow> fl list \<Rightarrow> error + fl list" where
  "building_cost_calc p use_mix stories_in =
     (let heights = map (\<lambda>s. s * height_per_story p) stories_in;
          found = searchsorted (heights_for_costs p) heights;
          idx = map2 (\<lambda>h i. if isnan h then 0 else i) heights found;
          n = length stories_in;
          u = length (uses p)
      in if list_ex (\<lambda>i. length (costs p) \<le> i) idx then Inl IndexError
         else if (n = 1 \<and> u \<noteq> 1) \<or> (n = 0 \<and> u = 0) then Inl TypeError
         else if (n \<noteq> 1 \<and> u = 1) \<or> length use_mix \<noteq> u then Inl ValueError
         else Inr (map2 (\<lambda>i s. if isnan s then NaN else npdot (costs p ! i) use_mix)
                     idx stories_in))"

definition construction_time_calc :: "'z converted \<Rightarrow> fl list \<Rightarrow> fl list \<Rightarrow> error + fl list" where
  "construction_time_calc p use_mix building_bulks =
     (let month_indices = searchsorted (construction_sqft_for_months p) building_bulks
      in if list_ex (\<lambda>i. length (construction_months p) \<le> i) month_indices
         then Inl IndexError
         else if length use_mix \<noteq> length (uses p) \<or> uses p = [] then Inl ValueError
         else Inr (map (\<lambda>i. npdot (construction_months p ! i) use_mix) month_indices))"

text \<open>A column assigned to the frame must have one entry per far.\<close>

definition column_of :: "nat \<Rightarrow> fl list \<Rightarrow> error + fl list" where
  "column_of n xs = (if length xs = n then Inr xs else Inl ValueError)"

definition over_max :: "fl \<Rightarrow> fl list \<Rightarrow> fl list \<Rightarrow> fl list" where
  "over_max cap fs cs = map2 (\<lambda>f c. if cap < f then NaN else c) fs cs"

definition reference_dataframe ::
  "'z converted \<Rightarrow> string \<Rightarrow> fl list \<Rightarrow> string \<Rightarrow> error + ref_frame" where
  "reference_dataframe p name uses_distrib parking_config =
     (let n = length (fars p) in
      ebind (building_bulk p uses_distrib parking_config) (\<lambda>bulk.
      let parking_stalls = parking_stalls_of p uses_distrib bulk in
      ebind (stories_calc p parking_config bulk parking_stalls) (\<lambda>st.
      ebind (park_sqft p parking_config parking_stalls) (\<lambda>psqft.
      ebind (getitem (parking_cost_d p) parking_config) (\<lambda>c.
      ebind (getitem (parking_sqft_d p) parking_config) (\<lambda>a.
      let pcost = map (\<lambda>s. c * s * a) parking_stalls in
      ebind (building_cost_calc p uses_distrib st) (\<lambda>building_cost_per_sqft.
      ebind (bcast2 (+) bulk psqft) (\<lambda>total_built_sqft.
      ebind (construction_time_calc p uses_distrib total_built_sqft) (\<lambda>months.
      ebind (column_of n (tiled_parcel_sizes p)) (\<lambda>pclsz.
      ebind (column_of n bulk) (\<lambda>bsqft.
      ebind (column_of n st) (\<lambda>st_col.
      let ratio = map2 (/) psqft total_built_sqft;
          st_ceil = map ceil st_col;
          hts = map (\<lambda>s. s * height_per_story p) st_ceil;
          bcost = map2 (*) building_cost_per_sqft bsqft;
          cst = map2 (+) bcost pcost;
          ave = map2 (\<lambda>x t. x / t * profit_factor p) cst total_built_sqft;
          ave1 = (if name = ''retail'' then over_max (max_retail_height p) (fars p) ave
                  else ave);
          ave2 = (if name = ''industrial''
                  then over_max (max_industrial_height p) (fars p) ave1 else ave1)
      in Inr \<lparr>ref_far = fars p, ref_pclsz = pclsz, ref_building_sqft = bsqft,
               ref_spaces = parking_stalls, ref_park_sqft = psqft,
               ref_total_built_sqft = total_built_sqft, ref_parking_sqft_ratio = ratio,
               ref_stories = st_ceil, ref_height = hts,
               ref_build_cost_sqft = building_cost_per_sqft, ref_build_cost = bcost,
               ref_park_cost = pcost, ref_cost = cst, ref_ave_cost_sqft = ave2,
               ref_construction_months = months\<rparr>))))))))))))"

text \<open>
  \<open>_generate_reference\<close>: the forms in sorted order, each with every parking
  configuration in the configured order; the first failure aborts the construction.
\<close>

fun collect :: "('a \<Rightarrow> error + 'b) \<Rightarrow> 'a list \<Rightarrow> error + 'b list" where
  "collect f [] = Inr []"
| "collect f (x # xs) = ebind (f x) (\<lambda>y. ebind (collect f xs) (\<lambda>ys. Inr (y # ys)))"

definition generate_reference ::
  "'z converted \<Rightarrow> error + ((string \<times> string) \<times> ref_frame) list" where
  "generate_reference p =
     collect
       (\<lambda>(name, parking_config).
          ebind (getitem (forms p) name) (\<lambda>uses_distrib.
          ebind (reference_dataframe p name uses_distrib parking_config) (\<lambda>df.
            Inr ((name, parking_config), df))))
       (List.product (sort (map fst (forms p))) (parking_configs p))"


section \<open>Constructing the pro forma\<close>

text \<open>
  \<open>check_is_reasonable\<close>: every \<open>assert\<close> of the method, in its order. A failed
  assertion raises \<open>AssertionError\<close>. The \<open>isinstance\<close> assertions hold by typing
  here. The loop that tests the range 10 to 300 runs over \<open>parking_sqft_d\<close>, as the
  source has it.
\<close>

definition check_is_reasonable :: "config \<Rightarrow> error + unit" where
  "check_is_reasonable c =
     (if list_all (\<lambda>f. \<not> Fin 20 < f) (fars c)
         \<and> list_all (\<lambda>f. \<not> f \<le> Fin 0) (fars c)
         \<and> list_all (\<lambda>(k, v). k \<in> set (uses c) \<and> Fin 0 \<le> v \<and> v < Fin 5) (parking_rates c)
         \<and> list_all (\<lambda>(k, v). k \<in> set (parking_configs c) \<and> Fin 50 \<le> v \<and> v \<le> Fin 1000)
              (parking_sqft_d c)
         \<and> list_all (\<lambda>(k, v). k \<in> set (map fst (parking_cost_d c)) \<and> Fin 10 \<le> v \<and> v \<le> Fin 300)
              (parking_sqft_d c)
         \<and> list_all (\<lambda>v. isinf v \<or> (Fin 0 \<le> v \<and> v \<le> Fin 1000)) (heights_for_costs c)
         \<and> list_all (\<lambda>(k, v). k \<in> set (uses c) \<and> list_all (\<lambda>i. Fin 10 < i \<and> i < Fin 1000) v)
              (costs c)
      then Inr () else Inl AssertionError)"

text \<open>
  \<open>np.transpose(np.array([d[use] for use in uses]))\<close>: a missing use raises
  \<open>KeyError\<close>, rows of unequal length do not form a matrix.
\<close>

definition use_matrix :: "string list \<Rightarrow> (string \<times> fl list) list \<Rightarrow> error + fl list list" where
  "use_matrix us d =
     ebind (collect (getitem d) us) (\<lambda>rows.
       if list_all (\<lambda>r. length r = length (hd rows)) rows
       then Inr (transpose rows) else Inl ValueError)"

text \<open>\<open>d.get(use, 0.0)\<close> for every use, divided by the sum of the vector.\<close>

definition form_vector :: "string list \<Rightarrow> (string \<times> fl) list \<Rightarrow> fl list" where
  "form_vector us d =
     (let v = map (\<lambda>use. case map_of d use of None \<Rightarrow> Fin 0 | Some x \<Rightarrow> x) us
      in map (\<lambda>x. x / npsum v) v)"

text \<open>
  \<open>pd.Series(v)[residential_uses].sum()\<close>: the entries under a true flag, NaN skipped
  as pandas sums.
\<close>

definition res_ratio_of :: "bool list \<Rightarrow> fl list \<Rightarrow> fl" where
  "res_ratio_of flags v =
     npsum (filter (\<lambda>x. \<not> isnan x) (map snd (filter fst (zip flags v))))"

record proforma =
  "(fl list, fl list, fl list list, string list, string list) settings" +
  res_ratios :: "(string \<times> fl) list"
  reference_dict :: "((string \<times> string) \<times> ref_frame) list"

text \<open>
  \<open>_convert_types\<close>, together with the two defaults \<open>__init__\<close> fills in before it
  (\<open>forms_to_test or sorted(self.forms.keys())\<close>, and an empty pass-through list for
  \<open>None\<close>). The reference table is still empty.
\<close>

definition convert_types :: "config \<Rightarrow> error + proforma" where
  "convert_types c =
     (let ftt = (case forms_to_test c of None \<Rightarrow> sort (map fst (forms c))
                 | Some l \<Rightarrow> if l = [] then sort (map fst (forms c)) else l);
          pt = (case pass_through c of None \<Rightarrow> [] | Some l \<Rightarrow> l)
      in
      ebind (collect (getitem (parking_rates c)) (uses c)) (\<lambda>rates.
      if length (uses c) \<noteq> length (residential_uses c) then Inl AssertionError else
      let fms = map (\<lambda>(k, d). (k, form_vector (uses c) d)) (forms c);
          rr = map (\<lambda>(k, v). (k, res_ratio_of (residential_uses c) v)) fms in
      ebind (use_matrix (uses c) (costs c)) (\<lambda>cm.
      ebind (use_matrix (uses c) (construction_months c)) (\<lambda>mm.
        Inr \<lparr>parcel_sizes = parcel_sizes c, fars = fars c, uses = uses c,
             residential_uses = residential_uses c, forms = fms,
             profit_factor = profit_factor c,
             building_efficiency = building_efficiency c,
             parcel_coverage = parcel_coverage c, cap_rate = cap_rate c,
             parking_rates = rates, sqft_per_rate = sqft_per_rate c,
             parking_configs = parking_configs c, costs = cm,
             heights_for_costs = heights_for_costs c,
             parking_sqft_d = parking_sqft_d c, parking_cost_d = parking_cost_d c,
             height_per_story = height_per_story c,
             max_retail_height = max_retail_height c,
             max_industrial_height = max_industrial_height c,
             construction_months = mm,
             construction_sqft_for_months = construction_sqft_for_months c,
             loan_to_cost_ratio = loan_to_cost_ratio c,
             drawdown_factor = drawdown_factor c, interest_rate = interest_rate c,
             loan_fees = loan_fees c,
             residential_to_yearly = residential_to_yearly c, forms_to_test = ftt,
             only_built = only_built c, pass_through = pt,
             simple_zoning = simple_zoning c, parcel_filter = parcel_filter c,
             res_ratios = rr, reference_dict = []\<rparr>))))"

text \<open>
  \<open>__init__\<close>: \<open>check_is_reasonable\<close>, \<open>_convert_types\<close>, then the reference
  table, kept in \<open>reference_dict\<close>.
\<close>

definition SqFtProForma :: "config \<Rightarrow> error + proforma" where
  "SqFtProForma c =
     ebind (check_is_reasonable c) (\<lambda>_.
     ebind (convert_types c) (\<lambda>p.
     ebind (generate_reference p) (\<lambda>rd. Inr (p\<lparr>reference_dict := rd\<rparr>))))"

definition get_defaults :: config where
  "get_defaults =
     \<lparr>parcel_sizes = [Fin 10000],
      fars = map Fin [1/10, 1/4, 1/2, 3/4, 1, 3/2, 9/5, 2, 9/4, 5/2, 11/4, 3, 13/4, 7/2,
                      15/4, 4, 9/2, 5, 11/2, 6, 13/2, 7, 9, 11],
      uses = [''retail'', ''industrial'', ''office'', ''residential''],
      residential_uses = [False, False, False, True],
      forms = [(''industrial'', [(''industrial'', Fin 1)]),
               (''mixedoffice'', [(''office'', Fin (7/10)), (''residential'', Fin (3/10))]),
               (''mixedresidential'', [(''residential'', Fin (9/10)), (''retail'', Fin (1/10))]),
               (''office'', [(''office'', Fin 1)]),
               (''residential'', [(''residential'', Fin 1)]),
               (''retail'', [(''retail'', Fin 1)])],
      profit_factor = Fin (11/10),
      building_efficiency = Fin (7/10),
      parcel_coverage = Fin (4/5),
      cap_rate = Fin (1/20),
      parking_rates = [(''industrial'', Fin (3/5)), (''office'', Fin 1),
                       (''residential'', Fin 1), (''retail'', Fin 2)],
      sqft_per_rate = Fin 1000,
      parking_configs = [''surface'', ''deck'', ''underground''],
      costs = [(''industrial'', map Fin [140, 175, 200, 230]),
               (''office'', map Fin [160, 175, 200, 230]),
               (''residential'', map Fin [170, 190, 210, 240]),
               (''retail'', map Fin [160, 175, 200, 230])],
      heights_for_costs = [Fin 15, Fin 55, Fin 120, PInf],
      parking_sqft_d = [(''deck'', Fin 250), (''surface'', Fin 300), (''underground'', Fin 250)],
      parking_cost_d = [(''deck'', Fin 90), (''surface'', Fin 30), (''underground'', Fin 110)],
      height_per_story = Fin 12,
      max_retail_height = Fin 2,
      max_industrial_height = Fin 2,
      construction_months = [(''industrial'', map Fin [12, 14, 18, 24]),
                             (''office'', map Fin [12, 14, 18, 24]),
                             (''residential'', map Fin [12, 14, 18, 24]),
                             (''retail'', map Fin [12, 14, 18, 24])],
      construction_sqft_for_months = [Fin 10000, Fin 20000, Fin 50000, PInf],
      loan_to_cost_ratio = Fin (7/10),
      drawdown_factor = Fin (3/5),
      interest_rate = Fin (1/20),
      loan_fees = Fin (1/50),
      residential_to_yearly = True,
      forms_to_test = Some [''industrial'', ''mixedoffice'', ''mixedresidential'', ''office'',
                            ''residential'', ''retail''],
      only_built = True,
      pass_through = Some [],
      simple_zoning = False,
      parcel_filter = None\<rparr>"


section \<open>Site tables\<close>

text \<open>
  A pandas DataFrame of numeric columns: the index (site identifiers) and the columns by
  name. Every column has one entry per index label. Assigning to a column replaces it or
  appends it, as a dictionary does.
\<close>

record 'i frame =
  index :: "'i list"
  columns :: "(string \<times> fl list) list"

definition has_column :: "'i frame \<Rightarrow> string \<Rightarrow> bool" where
  "has_column df name = (map_of (columns df) name \<noteq> None)"

text \<open>\<open>df.name\<close> raises \<open>AttributeError\<close>, \<open>df[name]\<close> raises \<open>KeyError\<close>.\<close>

definition getattr :: "'i frame \<Rightarrow> string \<Rightarrow> error + fl list" where
  "getattr df name =
     (case map_of (columns df) name of None \<Rightarrow> Inl (AttributeError name) | Some c \<Rightarrow> Inr c)"

definition setitem :: "'i frame \<Rightarrow> string \<Rightarrow> fl list \<Rightarrow> 'i frame" where
  "setitem df name col = df\<lparr>columns := AList.update name col (columns df)\<rparr>"

definition select :: "bool list \<Rightarrow> 'a list \<Rightarrow> 'a list" where
  "select keep xs = map snd (filter fst (zip keep xs))"

definition filter_rows :: "bool list \<Rightarrow> 'i frame \<Rightarrow> 'i frame" where
  "filter_rows keep df =
     \<lparr>index = select keep (index df),
      columns = map (\<lambda>(k, c). (k, select keep c)) (columns df)\<rparr>"

text \<open>
  \<open>_simple_zoning\<close> assigns an empty Series to two columns of the frame it is given:
  pandas aligns it to the index, which leaves NaN in every row. The frame is the
  caller's object, so the function returns the frame as it is afterwards.
\<close>

definition simple_zoning_apply :: "string \<Rightarrow> 'i frame \<Rightarrow> 'i frame" where
  "simple_zoning_apply form df =
     (let nans = replicate (length (index df)) NaN in
      if form = ''residential''
      then setitem (setitem df ''max_far'' nans) ''max_height'' nans
      else setitem (setitem df ''max_dua'' nans) ''max_height'' nans)"

section \<open>The feasibility lookup\<close>

text \<open>One row of the result of a lookup; \<open>site\<close> is the index label of the row.\<close>

record 'i result_row =
  site :: 'i
  building_sqft :: fl
  building_cost :: fl
  parking_ratio :: fl
  stories :: fl
  total_cost :: fl
  building_revenue :: fl
  max_profit_far :: fl
  max_profit :: fl
  parking_config :: string
  construction_time :: fl
  financing_cost :: fl
  passed :: "(string \<times> fl) list"
  residential_sqft :: fl
  non_residential_sqft :: fl

text \<open>
  A two-dimensional numpy array of floats, by its shape and its entries. The arrays that
  \<open>_lookup_parking_cfg\<close> builds have one row per far and one column per site; what a
  caller's function returns may have any shape.
\<close>

record array2 =
  nrows :: nat
  ncols :: nat
  entry :: "nat \<Rightarrow> nat \<Rightarrow> fl"

text \<open>
  The optional caller functions, pure functions here. The array functions take and
  return a two-dimensional array of floats.
\<close>

record 'i hooks =
  modify_df :: "(proforma \<Rightarrow> string \<Rightarrow> 'i frame \<Rightarrow> 'i frame) option"
  modify_revenues :: "(proforma \<Rightarrow> string \<Rightarrow> 'i frame \<Rightarrow> array2 \<Rightarrow> array2) option"
  modify_costs :: "(proforma \<Rightarrow> string \<Rightarrow> 'i frame \<Rightarrow> array2 \<Rightarrow> array2) option"
  modify_profits :: "(proforma \<Rightarrow> string \<Rightarrow> 'i frame \<Rightarrow> array2 \<Rightarrow> array2) option"

definition no_hooks :: "'i hooks" where
  "no_hooks = \<lparr>modify_df = None, modify_revenues = None, modify_costs = None,
               modify_profits = None\<rparr>"

definition apply_hook ::
  "proforma \<Rightarrow> string \<Rightarrow> 'i frame \<Rightarrow>
   (proforma \<Rightarrow> string \<Rightarrow> 'i frame \<Rightarrow> array2 \<Rightarrow> array2) option \<Rightarrow> array2 \<Rightarrow> array2" where
  "apply_hook p form df h a = (case h of None \<Rightarrow> a | Some f \<Rightarrow> f p form df a)"

text \<open>
  While the method builds them, the arrays of shape (fars, sites) are lists of rows. The
  helpers are numpy's arithmetic of such an array with a column over the fars, a vector
  over the sites, an array of the same shape, and a scalar.
\<close>

definition rowwise :: "('a \<Rightarrow> 'b \<Rightarrow> 'c) \<Rightarrow> 'a list list \<Rightarrow> 'b list \<Rightarrow> 'c list list" where
  "rowwise f m col = map2 (\<lambda>row c. map (\<lambda>x. f x c) row) m col"

definition colwise :: "('a \<Rightarrow> 'b \<Rightarrow> 'c) \<Rightarrow> 'a list list \<Rightarrow> 'b list \<Rightarrow> 'c list list" where
  "colwise f m vec = map (\<lambda>row. map2 f row vec) m"

definition elemwise :: "('a \<Rightarrow> 'b \<Rightarrow> 'c) \<Rightarrow> 'a list list \<Rightarrow> 'b list list \<Rightarrow> 'c list list" where
  "elemwise f m m' = map2 (map2 f) m m'"

definition scalar :: "('a \<Rightarrow> 'b \<Rightarrow> 'c) \<Rightarrow> 'a list list \<Rightarrow> 'b \<Rightarrow> 'c list list" where
  "scalar f m c = map (map (\<lambda>x. f x c)) m"

definition repeat_cols :: "'a list \<Rightarrow> nat \<Rightarrow> 'a list list" where
  "repeat_cols col k = map (replicate k) col"

definition at2 :: "'a list list \<Rightarrow> nat \<Rightarrow> nat \<Rightarrow> 'a" where
  "at2 arr i j = arr ! i ! j"

text \<open>The list of rows of an array of \<open>n\<close> fars and \<open>k\<close> sites, as an array.\<close>

definition as_array :: "nat \<Rightarrow> nat \<Rightarrow> fl list list \<Rightarrow> array2" where
  "as_array n k m = \<lparr>nrows = n, ncols = k, entry = at2 m\<rparr>"

text \<open>
  Arithmetic of two arrays under numpy broadcasting: along each axis the two lengths are
  equal, or one of them is 1 and that array is repeated; any other pair of shapes raises
  \<open>ValueError\<close>.
\<close>

definition stretch :: "nat \<Rightarrow> nat \<Rightarrow> nat" where
  "stretch d i = (if d = 1 then 0 else i)"

definition broadcast :: "(fl \<Rightarrow> fl \<Rightarrow> fl) \<Rightarrow> array2 \<Rightarrow> array2 \<Rightarrow> error + array2" where
  "broadcast f a b =
     (if (nrows a = nrows b \<or> nrows a = 1 \<or> nrows b = 1)
         \<and> (ncols a = ncols b \<or> ncols a = 1 \<or> ncols b = 1)
      then Inr \<lparr>nrows = (if nrows a = 1 then nrows b else nrows a),
                ncols = (if ncols a = 1 then ncols b else ncols a),
                entry = (\<lambda>i j. f (entry a (stretch (nrows a) i) (stretch (ncols a) j))
                                 (entry b (stretch (nrows b) i) (stretch (ncols b) j)))\<rparr>
      else Inl ValueError)"

text \<open>
  \<open>np.argmax\<close> of a vector: the index of the first NaN if there is one, of the first
  largest entry otherwise.
\<close>

fun argmax :: "fl list \<Rightarrow> nat" where
  "argmax [] = 0"
| "argmax [x] = 0"
| "argmax (x # y # ys) =
     (let k = argmax (y # ys); b = (y # ys) ! k
      in if isnan x \<or> (\<not> isnan b \<and> b \<le> x) then 0 else Suc k)"

definition column :: "array2 \<Rightarrow> nat \<Rightarrow> fl list" where
  "column a j = map (\<lambda>i. entry a i j) [0..<nrows a]"

definition argmax_column :: "array2 \<Rightarrow> nat \<Rightarrow> nat" where
  "argmax_column a j = argmax (column a j)"

text \<open>
  \<open>np.argmax(profit, axis=0)\<close>: one row index per column. numpy raises
  \<open>ValueError\<close> on an array that has no rows.
\<close>

definition argmax_axis0 :: "array2 \<Rightarrow> error + nat list" where
  "argmax_axis0 a =
     (if nrows a = 0 then Inl ValueError else Inr (map (argmax_column a) [0..<ncols a]))"

text \<open>
  \<open>arr[indexes, np.arange(indexes.size)]\<close>: entry \<open>j\<close> is read in row
  \<open>indexes[j]\<close> of column \<open>j\<close>; an index outside the array raises
  \<open>IndexError\<close>.
\<close>

definition twod_get :: "nat list \<Rightarrow> array2 \<Rightarrow> error + fl list" where
  "twod_get indexes arr =
     (if list_all (\<lambda>i. i < nrows arr) indexes \<and> length indexes \<le> ncols arr
      then Inr (map2 (entry arr) indexes [0..<length indexes])
      else Inl IndexError)"

text \<open>\<open>col[indexes].flatten()\<close> for a column \<open>col\<close> over the fars.\<close>

definition take_rows :: "nat list \<Rightarrow> fl list \<Rightarrow> error + fl list" where
  "take_rows indexes col =
     (if list_all (\<lambda>i. i < length col) indexes then Inr (map (nth col) indexes)
      else Inl IndexError)"

text \<open>\<open>profit[np.isnan(profit)] = -np.inf\<close>\<close>

definition neg_inf_if_nan :: "fl \<Rightarrow> fl" where
  "neg_inf_if_nan x = (if isnan x then NInf else x)"

definition nan_to_neg_inf :: "array2 \<Rightarrow> array2" where
  "nan_to_neg_inf profit = profit\<lparr>entry := (\<lambda>i j. neg_inf_if_nan (entry profit i j))\<rparr>"

text \<open>\<open>DataFrame.min(axis=1)\<close> over the given columns: NaN is skipped, a row of NaN gives NaN.\<close>

fun min_skipna :: "fl list \<Rightarrow> fl" where
  "min_skipna [] = NaN"
| "min_skipna (x # xs) =
     (let m = min_skipna xs
      in if isnan x then m else if isnan m then x else if m < x then m else x)"

definition row_min :: "fl list list \<Rightarrow> fl list" where
  "row_min cols = map min_skipna (transpose cols)"


text \<open>
  \<open>_min_max_fars\<close>. With a density cap in the table and a form that has a residential
  share, the average unit size must be there too (the \<open>assert\<close>), and the cap converted
  to a far joins the minimum. The method also stores the converted cap in the working
  frame, so it returns the frame with the result.
\<close>

definition min_max_fars ::
  "proforma \<Rightarrow> 'i frame \<Rightarrow> fl \<Rightarrow> error + ('i frame \<times> fl list)" where
  "min_max_fars p df resratio =
     (if has_column df ''max_dua'' \<and> Fin 0 < resratio then
        if \<not> has_column df ''ave_unit_size'' then Inl AssertionError else
        ebind (getattr df ''max_dua'') (\<lambda>dua.
        ebind (getattr df ''parcel_size'') (\<lambda>psz.
        ebind (getattr df ''ave_unit_size'') (\<lambda>aus.
        let from_dua =
              map (\<lambda>(d, ps, a).
                     d * (ps / Fin 43560) * a / building_efficiency p / resratio / ps)
                (zip dua (zip psz aus));
            df' = setitem df ''max_far_from_dua'' from_dua in
        ebind (collect (getitem (columns df'))
                 [''max_far_from_heights'', ''max_far'', ''max_far_from_dua'']) (\<lambda>cols.
          Inr (df', row_min cols)))))
      else
        ebind (collect (getitem (columns df)) [''max_far_from_heights'', ''max_far''])
          (\<lambda>cols. Inr (df, row_min cols)))"

text \<open>
  \<open>get_debug_info\<close>, that is \<open>self.reference_dict[(form, parking_config)]\<close>; the
  \<open>KeyError\<close> of a missing pair carries the form here.
\<close>

definition get_debug_info :: "proforma \<Rightarrow> string \<Rightarrow> string \<Rightarrow> error + ref_frame" where
  "get_debug_info p form pconfig =
     (case map_of (reference_dict p) (form, pconfig) of
        None \<Rightarrow> Inl (KeyError form) | Some d \<Rightarrow> Inr d)"

text \<open>The value of \<open>.01\<close> added to a zoning cap before a far or a height is compared with it.\<close>

definition tol :: fl where
  "tol = Fin (1/100)"

definition over_cap :: "fl \<Rightarrow> fl \<Rightarrow> bool" where
  "over_cap x cap = (\<not> isnan x \<and> cap + tol < nan_to_num x)"

text \<open>
  The local variables of \<open>_lookup_parking_cfg\<close> when the profit array is complete,
  before its NaN cells are replaced: the working copy of the site table, the residential
  share of the form, the parking ratio of the reference frame, and the arrays.
\<close>

record 'i workings =
  w_df :: "'i frame"
  w_resratio :: fl
  w_parking_sqft_ratio :: "fl list"
  w_fars :: array2
  w_heights :: array2
  w_months :: array2
  w_building_bulks :: array2
  w_building_costs :: array2
  w_total_financing_costs :: array2
  w_total_development_costs :: array2
  w_building_revenue :: array2
  w_profit :: array2

text \<open>
  \<open>_lookup_parking_cfg\<close>, first part: the pro forma of one form under one parking
  configuration on a copy of the site table, up to the profit of every far on every
  site. The caller's functions are applied where the method applies them; the profit is
  the revenue less the cost as numpy subtracts arrays, whatever shapes the functions
  returned.
\<close>

definition profit_calc ::
  "proforma \<Rightarrow> string \<Rightarrow> string \<Rightarrow> 'i frame \<Rightarrow> 'i hooks \<Rightarrow> error + 'i workings" where
  "profit_calc p form pconfig df0 hk =
     ebind (get_debug_info p form pconfig) (\<lambda>dev_info.
     let cost_sqft_col = ref_ave_cost_sqft dev_info;
         cost_sqft_index_col = ref_far dev_info;
         parking_sqft_ratio = ref_parking_sqft_ratio dev_info;
         heights = ref_height dev_info;
         months = ref_construction_months dev_info;
         n = length cost_sqft_index_col in
     ebind (getitem (res_ratios p) form) (\<lambda>resratio.
     ebind (getitem (forms p) form) (\<lambda>mix.
     ebind (collect (getitem (columns df0)) (uses p)) (\<lambda>rents.
     let df1 = setitem df0 ''weighted_rent''
                 (map (\<lambda>j. npdot (map (\<lambda>c. c ! j) rents) mix) [0..<length (index df0)]);
         df2 = (case modify_df hk of None \<Rightarrow> df1 | Some f \<Rightarrow> f p form df1) in
     ebind (getattr df2 ''max_height'') (\<lambda>mh0.
     let df3 = setitem df2 ''max_far_from_heights''
                 (map (\<lambda>h. h / height_per_story p * parcel_coverage p) mh0) in
     ebind (min_max_fars p df3 resratio) (\<lambda>(df4, mmf0).
     let df5 = setitem df4 ''min_max_fars'' mmf0 in
     ebind (if only_built p then
              ebind (case map_of (columns df5) ''parcel_size'' of
                       None \<Rightarrow> Inl (UndefinedVariableError ''parcel_size'')
                     | Some c \<Rightarrow> Inr c) (\<lambda>psz.
                Inr (filter_rows (map2 (\<lambda>m s. Fin 0 < m \<and> Fin 0 < s) mmf0 psz) df5))
            else Inr df5) (\<lambda>df.
     let k = length (index df) in
     ebind (getattr df ''min_max_fars'') (\<lambda>mmf.
     ebind (getattr df ''max_height'') (\<lambda>mh.
     let fars0 = repeat_cols cost_sqft_index_col k;
         fars1 = colwise (\<lambda>f cap. if over_cap f cap then NaN else f) fars0 mmf;
         heights_m = repeat_cols heights k;
         mask = colwise over_cap heights_m mh;
         fars_m = elemwise (\<lambda>f b. if b then NaN else f) fars1 mask in
     ebind (getattr df ''parcel_size'') (\<lambda>parcel_size.
     let building_bulks = colwise (*) fars_m parcel_size;
         building_costs = rowwise (*) building_bulks cost_sqft_col in
     ebind (getattr df ''land_cost'') (\<lambda>land_cost.
     let total_construction_costs = colwise (+) building_costs land_cost;
         loan_amount = scalar (*) total_construction_costs (loan_to_cost_ratio p);
         months_m = repeat_cols months k;
         interest = elemwise (\<lambda>l m. l * drawdown_factor p * (interest_rate p / Fin 12 * m))
                      loan_amount months_m;
         points = scalar (*) loan_amount (loan_fees p);
         total_financing_costs = elemwise (+) interest points;
         total_development_costs0 = elemwise (+) total_construction_costs total_financing_costs in
     ebind (getattr df ''weighted_rent'') (\<lambda>weighted_rent.
     let revenue0 =
           scalar (/)
             (colwise (*)
                (scalar (*) (rowwise (\<lambda>b r. b * (Fin 1 - r)) building_bulks parking_sqft_ratio)
                   (building_efficiency p))
                weighted_rent)
             (cap_rate p);
         building_revenue = apply_hook p form df (modify_revenues hk) (as_array n k revenue0);
         total_development_costs =
           apply_hook p form df (modify_costs hk) (as_array n k total_development_costs0) in
     ebind (broadcast (-) building_revenue total_development_costs) (\<lambda>profit0.
       Inr \<lparr>w_df = df, w_resratio = resratio, w_parking_sqft_ratio = parking_sqft_ratio,
            w_fars = as_array n k fars_m, w_heights = as_array n k heights_m,
            w_months = as_array n k months_m,
            w_building_bulks = as_array n k building_bulks,
            w_building_costs = as_array n k building_costs,
            w_total_financing_costs = as_array n k total_financing_costs,
            w_total_development_costs = total_development_costs,
            w_building_revenue = building_revenue,
            w_profit = apply_hook p form df (modify_profits hk) profit0\<rparr>)))))))))))))"

text \<open>
  The columns of \<open>outdf\<close> that are read from the arrays at \<open>maxprofitind\<close>, in the
  order of the dictionary that the method passes to \<open>pd.DataFrame\<close>.
\<close>

record picked =
  c_building_sqft :: "fl list"
  c_building_cost :: "fl list"
  c_parking_ratio :: "fl list"
  c_height :: "fl list"
  c_total_cost :: "fl list"
  c_building_revenue :: "fl list"
  c_max_profit_far :: "fl list"
  c_max_profit :: "fl list"
  c_construction_time :: "fl list"
  c_financing_cost :: "fl list"

definition pick_columns :: "nat list \<Rightarrow> 'i workings \<Rightarrow> array2 \<Rightarrow> error + picked" where
  "pick_columns maxprofitind w profit =
     ebind (twod_get maxprofitind (w_building_bulks w)) (\<lambda>c1.
     ebind (twod_get maxprofitind (w_building_costs w)) (\<lambda>c2.
     ebind (take_rows maxprofitind (w_parking_sqft_ratio w)) (\<lambda>c3.
     ebind (twod_get maxprofitind (w_heights w)) (\<lambda>c4.
     ebind (twod_get maxprofitind (w_total_development_costs w)) (\<lambda>c5.
     ebind (twod_get maxprofitind (w_building_revenue w)) (\<lambda>c6.
     ebind (twod_get maxprofitind (w_fars w)) (\<lambda>c7.
     ebind (twod_get maxprofitind profit) (\<lambda>c8.
     ebind (twod_get maxprofitind (w_months w)) (\<lambda>c9.
     ebind (twod_get maxprofitind (w_total_financing_costs w)) (\<lambda>c10.
       Inr \<lparr>c_building_sqft = c1, c_building_cost = c2, c_parking_ratio = c3,
            c_height = c4, c_total_cost = c5, c_building_revenue = c6,
            c_max_profit_far = c7, c_max_profit = c8, c_construction_time = c9,
            c_financing_cost = c10\<rparr>))))))))))"

text \<open>
  \<open>outdf[self.pass_through] = df[self.pass_through]\<close>, for one column and one row: a
  pass-through column with the name of a column of \<open>outdf\<close> replaces it. The two area
  columns do not exist yet and are computed afterwards, so a pass-through column of
  their name is lost. A row holds the parking configuration as a name; a pass-through
  column called \<open>parking_config\<close> would put numbers there, and is kept with the other
  pass-through columns here.
\<close>

definition assign_column :: "'i result_row \<Rightarrow> string \<times> fl \<Rightarrow> 'i result_row" where
  "assign_column r nv =
     (let name = fst nv; v = snd nv in
      if name = ''building_sqft'' then r\<lparr>building_sqft := v\<rparr>
      else if name = ''building_cost'' then r\<lparr>building_cost := v\<rparr>
      else if name = ''parking_ratio'' then r\<lparr>parking_ratio := v\<rparr>
      else if name = ''stories'' then r\<lparr>stories := v\<rparr>
      else if name = ''total_cost'' then r\<lparr>total_cost := v\<rparr>
      else if name = ''building_revenue'' then r\<lparr>building_revenue := v\<rparr>
      else if name = ''max_profit_far'' then r\<lparr>max_profit_far := v\<rparr>
      else if name = ''max_profit'' then r\<lparr>max_profit := v\<rparr>
      else if name = ''construction_time'' then r\<lparr>construction_time := v\<rparr>
      else if name = ''financing_cost'' then r\<lparr>financing_cost := v\<rparr>
      else if name = ''residential_sqft'' \<or> name = ''non_residential_sqft'' then r
      else r\<lparr>passed := AList.update name v (passed r)\<rparr>)"

definition nth_of :: "nat \<Rightarrow> 'a list \<Rightarrow> 'a" where
  "nth_of j c = c ! j"

text \<open>
  Row \<open>j\<close> of \<open>outdf\<close>: the picked columns, then the pass-through columns of the
  working frame, then the two area columns, computed from \<open>building_sqft\<close>.
\<close>

definition outdf_row ::
  "proforma \<Rightarrow> string \<Rightarrow> fl \<Rightarrow> 'i list \<Rightarrow> fl list list \<Rightarrow> picked \<Rightarrow> nat \<Rightarrow> 'i result_row" where
  "outdf_row p pconfig resratio idx pt c j =
     (let nonresratio = Fin 1 - resratio;
          r0 = \<lparr>site = idx ! j,
                building_sqft = c_building_sqft c ! j,
                building_cost = c_building_cost c ! j,
                parking_ratio = c_parking_ratio c ! j,
                stories = c_height c ! j / height_per_story p,
                total_cost = c_total_cost c ! j,
                building_revenue = c_building_revenue c ! j,
                max_profit_far = c_max_profit_far c ! j,
                max_profit = c_max_profit c ! j,
                parking_config = pconfig,
                construction_time = c_construction_time c ! j,
                financing_cost = c_financing_cost c ! j,
                passed = [],
                residential_sqft = NaN,
                non_residential_sqft = NaN\<rparr>;
          r1 = foldl assign_column r0 (zip (pass_through p) (map (nth_of j) pt))
      in r1\<lparr>residential_sqft := building_sqft r1 * building_efficiency p * resratio,
             non_residential_sqft := building_sqft r1 * building_efficiency p * nonresratio\<rparr>)"

text \<open>
  \<open>_lookup_parking_cfg\<close>, second part: the NaN profits become minus infinity, every
  site takes the far of its largest profit, and \<open>outdf\<close> gets one row per site of the
  working frame; \<open>pd.DataFrame\<close> raises \<open>ValueError\<close> when the picked columns have
  not one entry per site. The last definition is the last statement of the method, the
  query that drops rows.
\<close>

definition outdf_of ::
  "proforma \<Rightarrow> string \<Rightarrow> string \<Rightarrow> 'i frame \<Rightarrow> 'i hooks \<Rightarrow> error + 'i result_row list" where
  "outdf_of p form pconfig df0 hk =
     ebind (profit_calc p form pconfig df0 hk) (\<lambda>w.
     let profit = nan_to_neg_inf (w_profit w) in
     ebind (argmax_axis0 profit) (\<lambda>maxprofitind.
     ebind (pick_columns maxprofitind w profit) (\<lambda>c.
     if length maxprofitind \<noteq> length (index (w_df w)) then Inl ValueError else
     ebind (collect (getitem (columns (w_df w))) (pass_through p)) (\<lambda>pt.
       Inr (map (outdf_row p pconfig (w_resratio w) (index (w_df w)) pt c)
              [0..<length (index (w_df w))])))))"

definition lookup_parking_cfg ::
  "proforma \<Rightarrow> string \<Rightarrow> string \<Rightarrow> 'i frame \<Rightarrow> 'i hooks \<Rightarrow> error + 'i result_row list" where
  "lookup_parking_cfg p form pconfig df hk =
     ebind (outdf_of p form pconfig df hk) (\<lambda>outdf.
       Inr (if only_built p then filter (\<lambda>r. Fin 0 < max_profit r) outdf
            else filter (\<lambda>r. max_profit r \<noteq> NInf) outdf))"

text \<open>
  \<open>_max_profit_parking\<close>. The pivot has one row per site (sorted) and one column per
  parking configuration (sorted); it raises on a repeated (site, configuration) pair.
  \<open>idxmax\<close> takes, for each site, the first column with the largest profit, skipping
  the missing cells, and \<open>df.loc\<close> fetches that row. The cells of a site are its
  rows in the order of the pivot's columns.
\<close>

definition site_cells :: "'i result_row list \<Rightarrow> 'i \<Rightarrow> 'i result_row list" where
  "site_cells df s =
     filter (\<lambda>r. site r = s \<and> \<not> isnan (max_profit r)) (sort_key parking_config df)"

definition idxmax_row :: "'i result_row list \<Rightarrow> 'i \<Rightarrow> error + 'i result_row" where
  "idxmax_row df s =
     (if site_cells df s = [] then Inl ValueError
      else Inr (site_cells df s ! argmax (map max_profit (site_cells df s))))"

definition max_profit_parking :: "('i::linorder) result_row list \<Rightarrow> error + 'i result_row list" where
  "max_profit_parking df =
     (if \<not> distinct (map (\<lambda>r. (site r, parking_config r)) df) then Inl ValueError
      else collect (idxmax_row df) (sort (remdups (map site df))))"

text \<open>
  \<open>lookup\<close>. The first component of the result is the caller's site table as it is
  after the call, the second what the call returns or raises.
\<close>

definition lookup ::
  "proforma \<Rightarrow> string \<Rightarrow> ('i::linorder) frame \<Rightarrow> 'i hooks \<Rightarrow>
   'i frame \<times> (error + 'i result_row list)" where
  "lookup p form df hk =
     (let df' = (if simple_zoning p then simple_zoning_apply form df else df) in
      (df',
       ebind (collect (\<lambda>pc. lookup_parking_cfg p form pc df' hk) (parking_configs p)) (\<lambda>parts.
         if parts = [] then Inl ValueError else
         let lk = concat parts in
         if lk = [] then Inr [] else
         ebind (max_profit_parking lk) (\<lambda>result.
           Inr (if residential_to_yearly p \<and> ''residential'' \<in> set (pass_through p)
                then map (\<lambda>r. r\<lparr>passed :=
                                   map (\<lambda>(k, v). if k = ''residential''
                                                  then (k, v / cap_rate p) else (k, v))
                                     (passed r)\<rparr>) result
                else result)))))"


text \<open>
  The cost per area of the bracket that contains a height, in the words of the
  specification: the per-use cost row at the first breakpoint not below the height,
  weighted by the use mix. The breakpoints are ascending when none comes before a
  smaller one.
\<close>

fun first_not_below :: "fl list \<Rightarrow> fl \<Rightarrow> nat" where
  "first_not_below [] v = 0"
| "first_not_below (a # as) v = (if npy_less a v then Suc (first_not_below as v) else 0)"

definition ascending :: "fl list \<Rightarrow> bool" where
  "ascending arr = sorted_wrt (\<lambda>x y. \<not> npy_less y x) arr"

definition bracket_cost :: "'z converted \<Rightarrow> fl list \<Rightarrow> fl \<Rightarrow> fl" where
  "bracket_cost p use_mix height =
     npdot (costs p ! first_not_below (heights_for_costs p) height) use_mix"

section \<open>Concrete inputs\<close>

text \<open>The site table of \<open>test_reasonable_feasibility_results\<close>.\<close>

definition test_sites :: "string frame" where
  "test_sites =
     \<lparr>index = [''a'', ''b'', ''c''],
      columns = [(''residential'', [Fin 30, Fin 20, Fin 10]),
                 (''office'', [Fin 15, Fin 15, Fin 15]),
                 (''retail'', [Fin 12, Fin 12, Fin 12]),
                 (''industrial'', [Fin 12, Fin 12, Fin 12]),
                 (''land_cost'', [Fin 100000, Fin 100000, Fin 100000]),
                 (''parcel_size'', [Fin 1000, Fin 1000, Fin 1000]),
                 (''max_far'', [Fin 2, Fin 2, Fin 2]),
                 (''max_height'', [Fin 80, Fin 80, Fin 80])]\<rparr>"

text \<open>The defaults with a surface parking cost of 5 per square foot, below the range.\<close>

definition bad_parking_cost :: config where
  "bad_parking_cost =
     get_defaults\<lparr>parking_cost_d := [(''deck'', Fin 90), (''surface'', Fin 5),
                                      (''underground'', Fin 110)]\<rparr>"

text \<open>The defaults with 400 square feet per surface stall, inside the range 50 to 1000.\<close>

definition wide_surface_stall :: config where
  "wide_surface_stall =
     get_defaults\<lparr>parking_sqft_d := [(''deck'', Fin 250), (''surface'', Fin 400),
                                      (''underground'', Fin 250)]\<rparr>"

text \<open>The default parameter set after \<open>_convert_types\<close>, written out.\<close>

definition default_arrays :: proforma where
  "default_arrays =
     \<lparr>parcel_sizes = [Fin 10000],
      fars = map Fin [1/10, 1/4, 1/2, 3/4, 1, 3/2, 9/5, 2, 9/4, 5/2, 11/4, 3, 13/4, 7/2,
                      15/4, 4, 9/2, 5, 11/2, 6, 13/2, 7, 9, 11],
      uses = [''retail'', ''industrial'', ''office'', ''residential''],
      residential_uses = [False, False, False, True],
      forms = [(''industrial'', [Fin 0, Fin 1, Fin 0, Fin 0]),
               (''mixedoffice'', [Fin 0, Fin 0, Fin (7/10), Fin (3/10)]),
               (''mixedresidential'', [Fin (1/10), Fin 0, Fin 0, Fin (9/10)]),
               (''office'', [Fin 0, Fin 0, Fin 1, Fin 0]),
               (''residential'', [Fin 0, Fin 0, Fin 0, Fin 1]),
               (''retail'', [Fin 1, Fin 0, Fin 0, Fin 0])],
      profit_factor = Fin (11/10),
      building_efficiency = Fin (7/10),
      parcel_coverage = Fin (4/5),
      cap_rate = Fin (1/20),
      parking_rates = [Fin 2, Fin (3/5), Fin 1, Fin 1],
      sqft_per_rate = Fin 1000,
      parking_configs = [''surface'', ''deck'', ''underground''],
      costs = [map Fin [160, 140, 160, 170], map Fin [175, 175, 175, 190],
               map Fin [200, 200, 200, 210], map Fin [230, 230, 230, 240]],
      heights_for_costs = [Fin 15, Fin 55, Fin 120, PInf],
      parking_sqft_d = [(''deck'', Fin 250), (''surface'', Fin 300), (''underground'', Fin 250)],
      parking_cost_d = [(''deck'', Fin 90), (''surface'', Fin 30), (''underground'', Fin 110)],
      height_per_story = Fin 12,
      max_retail_height = Fin 2,
      max_industrial_height = Fin 2,
      construction_months = [map Fin [12, 12, 12, 12], map Fin [14, 14, 14, 14],
                             map Fin [18, 18, 18, 18], map Fin [24, 24, 24, 24]],
      construction_sqft_for_months = [Fin 10000, Fin 20000, Fin 50000, PInf],
      loan_to_cost_ratio = Fin (7/10),
      drawdown_factor = Fin (3/5),
      interest_rate = Fin (1/20),
      loan_fees = Fin (1/50),
      residential_to_yearly = True,
      forms_to_test = [''industrial'', ''mixedoffice'', ''mixedresidential'', ''office'',
                       ''residential'', ''retail''],
      only_built = True,
      pass_through = [],
      simple_zoning = False,
      parcel_filter = None,
      res_ratios = [(''industrial'', Fin 0), (''mixedoffice'', Fin (3/10)),
                    (''mixedresidential'', Fin (9/10)), (''office'', Fin 0),
                    (''residential'', Fin 1), (''retail'', Fin 0)],
      reference_dict = []\<rparr>"

text \<open>A grid of four fars on a parcel of 10000, for the surface branch of the stories.\<close>

definition four_fars :: proforma where
  "four_fars = default_arrays\<lparr>fars := [Fin 1, Fin 2, Fin 3, Fin 4]\<rparr>"

text \<open>A profit array of three fars and two sites, with a tie and with invalid cells.\<close>

definition tied_profit :: array2 where
  "tied_profit = as_array 3 2 [[Fin 1, NaN], [Fin 3, NaN], [Fin 3, Fin (- 2)]]"

text \<open>
  A parameter set of three fars, one form and one parking configuration, a table of two
  sites, and a caller's function that returns the tied profit array.
\<close>

definition small_config :: config where
  "small_config =
     get_defaults\<lparr>fars := [Fin 1, Fin 2, Fin 3],
                  forms := [(''residential'', [(''residential'', Fin 1)])],
                  parking_configs := [''underground''],
                  parking_sqft_d := [(''underground'', Fin 250)],
                  parking_cost_d := [(''underground'', Fin 110)],
                  forms_to_test := None\<rparr>"

definition two_sites :: "string frame" where
  "two_sites =
     \<lparr>index = [''a'', ''b''],
      columns = [(''residential'', [Fin 30, Fin 20]),
                 (''office'', [Fin 15, Fin 15]),
                 (''retail'', [Fin 12, Fin 12]),
                 (''industrial'', [Fin 12, Fin 12]),
                 (''land_cost'', [Fin 100000, Fin 100000]),
                 (''parcel_size'', [Fin 1000, Fin 1000]),
                 (''max_far'', [Fin 4, Fin 4]),
                 (''max_height'', [Fin 80, Fin 80])]\<rparr>"

definition tie_hooks :: "string hooks" where
  "tie_hooks = no_hooks\<lparr>modify_profits := Some (\<lambda>p form df profit. tied_profit)\<rparr>"

section \<open>Basic facts\<close>

lemma ebind_Inr [simp]: "ebind (Inr v) f = f v"
  by (simp add: ebind_def)

lemma ebind_Inl [simp]: "ebind (Inl e) f = Inl e"
  by (simp add: ebind_def)

lemma ebind_eq_Inr: "ebind m f = Inr y \<longleftrightarrow> (\<exists>v. m = Inr v \<and> f v = Inr y)"
  by (cases m) simp_all

lemma bcast2_same_length: "length xs = length ys \<Longrightarrow> bcast2 f xs ys = Inr (map2 f xs ys)"
  by (simp add: bcast2_def)

section \<open>Validation of the parameter set\<close>

text \<open>
  Claim C2. The claim says that construction validates every listed range, the parking
  cost per area in [10, 300] among them, and fails on any field out of range. The loop
  for that range iterates \<open>parking_sqft_d\<close> a second time, so a parking cost of 5 passes
  the check, and an area per stall of 400, inside its listed range [50, 1000], fails it.
\<close>

theorem check_is_reasonable_misses_parking_cost:
  "check_is_reasonable bad_parking_cost = Inr ()
   \<and> check_is_reasonable wide_surface_stall = Inl AssertionError"
  by (simp add: check_is_reasonable_def bad_parking_cost_def wide_surface_stall_def
        get_defaults_def)

section \<open>The caller's site table\<close>

lemma lookup_caller_frame:
  "fst (lookup p form df hk) = (if simple_zoning p then simple_zoning_apply form df else df)"
  by (simp add: lookup_def Let_def)

text \<open>
  Claim C3. The claim says that the caller's site table is unchanged after every lookup,
  simple zoning included. With \<open>simple_zoning\<close> set, \<open>lookup\<close> hands the caller's own
  frame to \<open>_simple_zoning\<close>, which overwrites columns in place: after a lookup of the
  residential form the caller's \<open>max_far\<close> column is NaN in every row, where it held 2.
\<close>

theorem lookup_simple_zoning_overwrites_caller:
  "map_of (columns (fst (lookup (p\<lparr>simple_zoning := True\<rparr>) ''residential'' test_sites hk)))
       ''max_far'' = Some [NaN, NaN, NaN]
   \<and> map_of (columns test_sites) ''max_far'' = Some [Fin 2, Fin 2, Fin 2]"
  by (simp add: lookup_caller_frame simple_zoning_apply_def setitem_def test_sites_def Let_def)


section \<open>Stories under surface parking\<close>

lemma getitem_Inr: "getitem d k = Inr v \<longleftrightarrow> map_of d k = Some v"
  by (simp add: getitem_def split: option.splits)

text \<open>The two masks on one quotient of a positive bulk by a finite footprint.\<close>

lemma surface_masks:
  assumes "0 < b"
  shows "mask_over_five (mask_negative (Fin b / Fin d)) =
         (if d < 0 \<or> Fin 5 < Fin b / Fin d then NaN else Fin b / Fin d)"
proof (cases "d = 0")
  case True
  with assms show ?thesis by (simp add: mask_negative_def mask_over_five_def)
next
  case False
  with assms have "b / d < 0 \<longleftrightarrow> d < 0"
    by (simp add: divide_less_0_iff)
  with False show ?thesis
    by (auto simp add: mask_negative_def mask_over_five_def)
qed

lemma NaN_divide [simp]: "NaN / c = NaN"
  by (cases c) simp_all

text \<open>
  Claim C5. Under surface parking the stories of an entry are the bulk divided by the
  parcel size less the stalls times the surface area per stall. With a positive bulk and a
  finite footprint \<open>d\<close>, the entry is NaN when \<open>d\<close> is negative or the quotient
  exceeds 5, and the quotient divided by the parcel coverage otherwise: the test is made
  on the quotient, before the division by the coverage.
\<close>

theorem stories_surface:
  assumes sqft: "getitem (parking_sqft_d p) ''surface'' = Inr a"
    and len: "length bulk = length (tiled_parcel_sizes p)"
             "length stalls = length (tiled_parcel_sizes p)"
  shows "\<exists>st. stories_calc p ''surface'' bulk stalls = Inr st \<and> length st = length bulk \<and>
           (\<forall>i b d. i < length bulk \<and> bulk ! i = Fin b \<and> 0 < b \<and>
                    tiled_parcel_sizes p ! i - stalls ! i * a = Fin d \<longrightarrow>
              st ! i = (if d < 0 \<or> Fin 5 < Fin b / Fin d then NaN
                        else Fin b / Fin d / parcel_coverage p))"
proof -
  let ?den = "map2 (-) (tiled_parcel_sizes p) (map (\<lambda>s. s * a) stalls)"
  let ?q = "map2 (/) bulk ?den"
  let ?st = "map (\<lambda>s. s / parcel_coverage p) (map (mask_over_five \<circ> mask_negative) ?q)"
  have eq: "stories_calc p ''surface'' bulk stalls = Inr ?st"
    using sqft len by (simp add: stories_calc_def bcast2_same_length)
  have "length ?st = length bulk"
    using len by simp
  moreover have "?st ! i = (if d < 0 \<or> Fin 5 < Fin b / Fin d then NaN
                        else Fin b / Fin d / parcel_coverage p)"
    if "i < length bulk" "bulk ! i = Fin b" "0 < b"
       "tiled_parcel_sizes p ! i - stalls ! i * a = Fin d" for i b d
  proof -
    have "?q ! i = Fin b / Fin d"
      using that len by simp
    then have "?st ! i = mask_over_five (mask_negative (Fin b / Fin d)) / parcel_coverage p"
      using that(1) len by simp
    then show ?thesis
      using surface_masks [OF that(3), of d] by simp
  qed
  ultimately show ?thesis
    using eq by blast
qed

theorem stories_surface_witness:
  "\<exists>st. stories_calc four_fars ''surface'' [Fin 10000, Fin 20000, Fin 30000, Fin 40000]
          [Fin 10, Fin 20, Fin 30, Fin 40] = Inr st
        \<and> length st = 4 \<and> st ! 0 = Fin (25/14) \<and> st ! 1 = Fin (25/4) \<and> st ! 2 = NaN
        \<and> st ! 3 = NaN"
proof -
  have sq: "getitem (parking_sqft_d four_fars) ''surface'' = Inr (Fin 300)"
    by (simp add: four_fars_def default_arrays_def getitem_def)
  have tl: "tiled_parcel_sizes four_fars = [Fin 10000, Fin 10000, Fin 10000, Fin 10000]"
    by (simp add: four_fars_def default_arrays_def tiled_parcel_sizes_def)
  have cov: "parcel_coverage four_fars = Fin (4/5)"
    by (simp add: four_fars_def default_arrays_def)
  obtain st where st:
    "stories_calc four_fars ''surface'' [Fin 10000, Fin 20000, Fin 30000, Fin 40000]
       [Fin 10, Fin 20, Fin 30, Fin 40] = Inr st"
    "length st = 4"
    "\<And>i b d. i < 4 \<Longrightarrow> [Fin 10000, Fin 20000, Fin 30000, Fin 40000] ! i = Fin b \<Longrightarrow> 0 < b \<Longrightarrow>
       [Fin 10000, Fin 10000, Fin 10000, Fin 10000] ! i
         - [Fin 10, Fin 20, Fin 30, Fin 40] ! i * Fin 300 = Fin d \<Longrightarrow>
       st ! i = (if d < 0 \<or> Fin 5 < Fin b / Fin d then NaN else Fin b / Fin d / Fin (4/5))"
    using stories_surface [OF sq, of "[Fin 10000, Fin 20000, Fin 30000, Fin 40000]"
        "[Fin 10, Fin 20, Fin 30, Fin 40]"]
    unfolding tl cov by auto
  have "st ! 0 = Fin (25/14)"
    using st(3) [of 0 10000 7000] by (simp add: minus_fl_def)
  moreover have "st ! 1 = Fin (25/4)"
    using st(3) [of 1 20000 4000] by (simp add: minus_fl_def)
  moreover have "st ! 2 = NaN"
    using st(3) [of 2 30000 1000] by (simp add: minus_fl_def)
  moreover have "st ! 3 = NaN"
    using st(3) [of 3 40000 "- 2000"] by (simp add: minus_fl_def)
  ultimately show ?thesis
    using st(1,2) by blast
qed

section \<open>Selection of the far\<close>

lemma fl_le_refl: "\<not> isnan a \<Longrightarrow> a \<le> (a::fl)"
  by (cases a) simp_all

lemma fl_le_trans: "a \<le> b \<Longrightarrow> b \<le> c \<Longrightarrow> a \<le> (c::fl)"
  by (cases a; cases b; cases c) simp_all

lemma fl_not_le: "\<not> isnan a \<Longrightarrow> \<not> isnan b \<Longrightarrow> \<not> b \<le> a \<Longrightarrow> a < (b::fl)"
  by (cases a; cases b) simp_all

lemma fl_less_le: "a < b \<Longrightarrow> a \<le> (b::fl)"
  by (cases a; cases b) simp_all

lemma fl_less_le_trans: "a < b \<Longrightarrow> b \<le> c \<Longrightarrow> a < (c::fl)"
  by (cases a; cases b; cases c) simp_all

lemma argmax_less_length: "ys \<noteq> [] \<Longrightarrow> argmax ys < length ys"
  by (induction ys rule: argmax.induct) (simp_all add: Let_def)

lemma argmax_is_max:
  "list_all (\<lambda>x. \<not> isnan x) ys \<Longrightarrow> i < length ys \<Longrightarrow> ys ! i \<le> ys ! argmax ys"
proof (induction ys arbitrary: i rule: argmax.induct)
  case 1
  then show ?case by simp
next
  case (2 x)
  then show ?case by (simp add: fl_le_refl)
next
  case (3 x y ys)
  let ?k = "argmax (y # ys)"
  let ?b = "(y # ys) ! ?k"
  have "?b \<in> set (y # ys)"
    using argmax_less_length [of "y # ys"] nth_mem by blast
  then have nb: "\<not> isnan ?b"
    using "3.prems"(1) by (auto simp add: list_all_iff)
  have nx: "\<not> isnan x"
    using "3.prems"(1) by simp
  have ih: "(y # ys) ! j \<le> ?b" if "j < length (y # ys)" for j
    using "3.IH" [of j] "3.prems"(1) that by simp
  show ?case
  proof (cases "?b \<le> x")
    case True
    then have am: "argmax (x # y # ys) = 0"
      using nb by (simp add: Let_def)
    show ?thesis
    proof (cases i)
      case 0
      then show ?thesis using am nx by (simp add: fl_le_refl)
    next
      case (Suc j)
      then have "(y # ys) ! j \<le> ?b"
        using ih [of j] "3.prems"(2) by simp
      then show ?thesis
        using am Suc True fl_le_trans [of "(y # ys) ! j" "?b" x] by simp
    qed
  next
    case False
    then have am: "argmax (x # y # ys) = Suc ?k"
      using nx by (simp add: Let_def)
    show ?thesis
    proof (cases i)
      case 0
      then show ?thesis
        using am fl_less_le [OF fl_not_le [OF nx nb False]] by simp
    next
      case (Suc j)
      then show ?thesis
        using am ih [of j] "3.prems"(2) by simp
    qed
  qed
qed

lemma argmax_is_first:
  "list_all (\<lambda>x. \<not> isnan x) ys \<Longrightarrow> i < argmax ys \<Longrightarrow> ys ! i < ys ! argmax ys"
proof (induction ys arbitrary: i rule: argmax.induct)
  case 1
  then show ?case by simp
next
  case (2 x)
  then show ?case by simp
next
  case (3 x y ys)
  let ?k = "argmax (y # ys)"
  let ?b = "(y # ys) ! ?k"
  have "?b \<in> set (y # ys)"
    using argmax_less_length [of "y # ys"] nth_mem by blast
  then have nb: "\<not> isnan ?b"
    using "3.prems"(1) by (auto simp add: list_all_iff)
  have nx: "\<not> isnan x"
    using "3.prems"(1) by simp
  show ?case
  proof (cases "?b \<le> x")
    case True
    then have "argmax (x # y # ys) = 0"
      using nb by (simp add: Let_def)
    then show ?thesis using "3.prems"(2) by simp
  next
    case False
    then have am: "argmax (x # y # ys) = Suc ?k"
      using nx by (simp add: Let_def)
    show ?thesis
    proof (cases i)
      case 0
      then show ?thesis
        using am fl_not_le [OF nx nb False] by simp
    next
      case (Suc j)
      then have "j < ?k"
        using "3.prems"(2) am by simp
      then have "(y # ys) ! j < ?b"
        using "3.IH" [of j] "3.prems"(1) by simp
      then show ?thesis
        using am Suc by simp
    qed
  qed
qed

lemma twod_get_Inr:
  assumes "twod_get ix arr = Inr v"
  shows "length v = length ix"
    and "j < length ix \<Longrightarrow> v ! j = entry arr (ix ! j) j"
    and "j < length ix \<Longrightarrow> ix ! j < nrows arr"
  using assms
  by (auto simp add: twod_get_def list_all_length split: if_splits)

lemma argmax_axis0_Inr:
  assumes "argmax_axis0 a = Inr ix"
  shows "0 < nrows a"
    and "length ix = ncols a"
    and "j < ncols a \<Longrightarrow> ix ! j = argmax (column a j)"
  using assms
  by (auto simp add: argmax_axis0_def argmax_column_def split: if_splits)

lemma column_nan_to_neg_inf:
  "column (nan_to_neg_inf a) j = map (\<lambda>i. neg_inf_if_nan (entry a i j)) [0..<nrows a]"
  by (simp add: column_def nan_to_neg_inf_def)

lemma not_isnan_neg_inf_if_nan: "\<not> isnan (neg_inf_if_nan x)"
  by (cases x) (simp_all add: neg_inf_if_nan_def)

lemma assign_column_site [simp]: "site (assign_column r nv) = site r"
  by (simp add: assign_column_def Let_def)

lemma assign_column_parking_config [simp]:
  "parking_config (assign_column r nv) = parking_config r"
  by (simp add: assign_column_def Let_def)

lemma assign_column_max_profit:
  "''max_profit'' \<noteq> fst nv \<Longrightarrow> max_profit (assign_column r nv) = max_profit r"
  by (auto simp add: assign_column_def Let_def)

lemma assign_column_max_profit_far:
  "''max_profit_far'' \<noteq> fst nv \<Longrightarrow>
   max_profit_far (assign_column r nv) = max_profit_far r"
  by (auto simp add: assign_column_def Let_def)

lemma foldl_assign_site [simp]: "site (foldl assign_column r nvs) = site r"
  by (induction nvs arbitrary: r) simp_all

lemma foldl_assign_parking_config [simp]:
  "parking_config (foldl assign_column r nvs) = parking_config r"
  by (induction nvs arbitrary: r) simp_all

lemma foldl_assign_max_profit:
  "''max_profit'' \<notin> fst ` set nvs \<Longrightarrow> max_profit (foldl assign_column r nvs) = max_profit r"
  by (induction nvs arbitrary: r) (simp_all add: assign_column_max_profit)

lemma foldl_assign_max_profit_far:
  "''max_profit_far'' \<notin> fst ` set nvs \<Longrightarrow>
   max_profit_far (foldl assign_column r nvs) = max_profit_far r"
  by (induction nvs arbitrary: r) (simp_all add: assign_column_max_profit_far)

lemma fst_set_zip: "fst ` set (zip xs ys) \<subseteq> set xs"
  by (auto dest: set_zip_leftD)

lemma outdf_row_site [simp]: "site (outdf_row p pconfig rr idx pt c j) = idx ! j"
  by (simp add: outdf_row_def Let_def)

lemma outdf_row_parking_config [simp]:
  "parking_config (outdf_row p pconfig rr idx pt c j) = pconfig"
  by (simp add: outdf_row_def Let_def)

lemma outdf_row_max_profit:
  assumes "''max_profit'' \<notin> set (pass_through p)"
  shows "max_profit (outdf_row p pconfig rr idx pt c j) = c_max_profit c ! j"
proof -
  have "''max_profit'' \<notin> fst ` set (zip (pass_through p) (map (nth_of j) pt))"
    using assms fst_set_zip [of "pass_through p" "map (nth_of j) pt"] by blast
  then show ?thesis
    by (simp add: outdf_row_def Let_def foldl_assign_max_profit)
qed

lemma outdf_row_max_profit_far:
  assumes "''max_profit_far'' \<notin> set (pass_through p)"
  shows "max_profit_far (outdf_row p pconfig rr idx pt c j) = c_max_profit_far c ! j"
proof -
  have "''max_profit_far'' \<notin> fst ` set (zip (pass_through p) (map (nth_of j) pt))"
    using assms fst_set_zip [of "pass_through p" "map (nth_of j) pt"] by blast
  then show ?thesis
    by (simp add: outdf_row_def Let_def foldl_assign_max_profit_far)
qed

lemma pick_columns_Inr:
  assumes "pick_columns ix w profit = Inr c"
  shows "twod_get ix profit = Inr (c_max_profit c)"
    and "twod_get ix (w_fars w) = Inr (c_max_profit_far c)"
    and "twod_get ix (w_building_bulks w) = Inr (c_building_sqft c)"
  using assms
  by (auto simp add: pick_columns_def ebind_eq_Inr)

lemma outdf_of_Inr:
  assumes "outdf_of p form pconfig df hk = Inr outdf"
  shows "\<exists>w ix c pt. profit_calc p form pconfig df hk = Inr w
           \<and> argmax_axis0 (nan_to_neg_inf (w_profit w)) = Inr ix
           \<and> pick_columns ix w (nan_to_neg_inf (w_profit w)) = Inr c
           \<and> length ix = length (index (w_df w))
           \<and> outdf = map (outdf_row p pconfig (w_resratio w) (index (w_df w)) pt c)
                        [0..<length (index (w_df w))]"
  using assms
  by (auto simp add: outdf_of_def ebind_eq_Inr Let_def split: if_splits)

text \<open>
  Claim C6. A lookup of one form under one parking configuration that returns rows has
  computed a profit array, and its rows are the sites of the working table in their
  order. The row of site \<open>j\<close> reports the far and the profit of one index \<open>m\<close> of
  the far grid, the profit with NaN replaced by minus infinity; no index of the grid has
  a larger such profit on the site, and every index before \<open>m\<close> has a strictly smaller
  one: of several maximal candidates the first in grid order is taken. (The two columns
  are not replaced by pass-through columns of their name.)
\<close>

theorem far_selection_first_maximum:
  assumes "outdf_of p form pconfig df hk = Inr outdf"
    and "''max_profit'' \<notin> set (pass_through p)"
    and "''max_profit_far'' \<notin> set (pass_through p)"
  shows "\<exists>w. profit_calc p form pconfig df hk = Inr w
           \<and> map site outdf = index (w_df w)
           \<and> (\<forall>j. j < length outdf \<longrightarrow>
                 (\<exists>m. m < nrows (w_profit w)
                    \<and> max_profit_far (outdf ! j) = entry (w_fars w) m j
                    \<and> max_profit (outdf ! j) = neg_inf_if_nan (entry (w_profit w) m j)
                    \<and> (\<forall>i. i < nrows (w_profit w) \<longrightarrow>
                          neg_inf_if_nan (entry (w_profit w) i j) \<le> max_profit (outdf ! j))
                    \<and> (\<forall>i. i < m \<longrightarrow>
                          neg_inf_if_nan (entry (w_profit w) i j) < max_profit (outdf ! j))))"
proof -
  from outdf_of_Inr [OF assms(1)] obtain w ix c pt where
    w: "profit_calc p form pconfig df hk = Inr w" and
    ix: "argmax_axis0 (nan_to_neg_inf (w_profit w)) = Inr ix" and
    c: "pick_columns ix w (nan_to_neg_inf (w_profit w)) = Inr c" and
    len: "length ix = length (index (w_df w))" and
    out: "outdf = map (outdf_row p pconfig (w_resratio w) (index (w_df w)) pt c)
                    [0..<length (index (w_df w))]"
    by blast
  let ?profit = "nan_to_neg_inf (w_profit w)"
  let ?n = "nrows (w_profit w)"
  have rows: "0 < ?n" and cols: "length ix = ncols (w_profit w)"
    using argmax_axis0_Inr(1,2) [OF ix] by (simp_all add: nan_to_neg_inf_def)
  have sites: "map site outdf = index (w_df w)"
    unfolding out by (simp add: comp_def map_nth)
  have sel: "\<exists>m. m < ?n
       \<and> max_profit_far (outdf ! j) = entry (w_fars w) m j
       \<and> max_profit (outdf ! j) = neg_inf_if_nan (entry (w_profit w) m j)
       \<and> (\<forall>i. i < ?n \<longrightarrow> neg_inf_if_nan (entry (w_profit w) i j) \<le> max_profit (outdf ! j))
       \<and> (\<forall>i. i < m \<longrightarrow> neg_inf_if_nan (entry (w_profit w) i j) < max_profit (outdf ! j))"
    if j: "j < length outdf" for j
  proof -
    let ?col = "map (\<lambda>i. neg_inf_if_nan (entry (w_profit w) i j)) [0..<?n]"
    let ?m = "argmax ?col"
    have jk: "j < length ix" "j < ncols ?profit"
      using j out len cols by (simp_all add: nan_to_neg_inf_def)
    have m: "ix ! j = ?m"
      using argmax_axis0_Inr(3) [OF ix jk(2)] by (simp add: column_nan_to_neg_inf)
    have ne: "?col \<noteq> []"
      using rows by simp
    have nonan: "list_all (\<lambda>x. \<not> isnan x) ?col"
      by (simp add: list_all_iff not_isnan_neg_inf_if_nan)
    have mlt: "?m < ?n"
      using argmax_less_length [OF ne] by simp
    have row: "outdf ! j = outdf_row p pconfig (w_resratio w) (index (w_df w)) pt c j"
      using j unfolding out by simp
    have "max_profit (outdf ! j) = c_max_profit c ! j"
      unfolding row using assms(2) by (rule outdf_row_max_profit)
    also have "\<dots> = entry ?profit (ix ! j) j"
      using twod_get_Inr(2) [OF pick_columns_Inr(1) [OF c] jk(1)] .
    also have "\<dots> = neg_inf_if_nan (entry (w_profit w) ?m j)"
      by (simp add: m nan_to_neg_inf_def)
    finally have mp: "max_profit (outdf ! j) = neg_inf_if_nan (entry (w_profit w) ?m j)" .
    have "max_profit_far (outdf ! j) = c_max_profit_far c ! j"
      unfolding row using assms(3) by (rule outdf_row_max_profit_far)
    also have "\<dots> = entry (w_fars w) (ix ! j) j"
      using twod_get_Inr(2) [OF pick_columns_Inr(2) [OF c] jk(1)] .
    finally have mf: "max_profit_far (outdf ! j) = entry (w_fars w) ?m j"
      by (simp add: m)
    have at: "?col ! ?m = neg_inf_if_nan (entry (w_profit w) ?m j)"
      using mlt by simp
    have le: "neg_inf_if_nan (entry (w_profit w) i j) \<le> max_profit (outdf ! j)"
      if "i < ?n" for i
      using argmax_is_max [OF nonan, of i] that unfolding mp at [symmetric] by simp
    have lt: "neg_inf_if_nan (entry (w_profit w) i j) < max_profit (outdf ! j)"
      if "i < ?m" for i
      using argmax_is_first [OF nonan that] that mlt unfolding mp at [symmetric] by simp
    show ?thesis
      using mlt mf mp le lt by blast
  qed
  show ?thesis
    using w sites sel by blast
qed

text \<open>
  The profit array of the caller's function ties the second and the third far on the
  first site: the row reports the second.
\<close>

lemma tie_scenario:
  "case SqFtProForma small_config of Inl e \<Rightarrow> False
   | Inr p \<Rightarrow> pass_through p = [] \<and>
       (case outdf_of p ''residential'' ''underground'' two_sites tie_hooks of
          Inl e \<Rightarrow> False
        | Inr outdf \<Rightarrow> map site outdf = [''a'', ''b'']
            \<and> map max_profit outdf = [Fin 3, Fin (- 2)]
            \<and> map max_profit_far outdf = [Fin 2, Fin 3])"
  by code_simp

theorem far_selection_first_maximum_witness:
  "\<exists>p outdf w m.
      SqFtProForma small_config = Inr p
    \<and> outdf_of p ''residential'' ''underground'' two_sites tie_hooks = Inr outdf
    \<and> profit_calc p ''residential'' ''underground'' two_sites tie_hooks = Inr w
    \<and> index (w_df w) = [''a'', ''b'']
    \<and> m < nrows (w_profit w)
    \<and> entry (w_fars w) m 0 = Fin 2
    \<and> neg_inf_if_nan (entry (w_profit w) m 0) = Fin 3
    \<and> (\<forall>i. i < nrows (w_profit w) \<longrightarrow> neg_inf_if_nan (entry (w_profit w) i 0) \<le> Fin 3)
    \<and> (\<forall>i. i < m \<longrightarrow> neg_inf_if_nan (entry (w_profit w) i 0) < Fin 3)"
proof -
  obtain p where p: "SqFtProForma small_config = Inr p"
    using tie_scenario by (cases "SqFtProForma small_config") simp_all
  have pt: "pass_through p = []"
    using tie_scenario p by simp
  obtain outdf where o: "outdf_of p ''residential'' ''underground'' two_sites tie_hooks = Inr outdf"
    using tie_scenario p
    by (cases "outdf_of p ''residential'' ''underground'' two_sites tie_hooks") simp_all
  have vals: "map site outdf = [''a'', ''b'']" "map max_profit outdf = [Fin 3, Fin (- 2)]"
    "map max_profit_far outdf = [Fin 2, Fin 3]"
    using tie_scenario p o by simp_all
  have l: "length outdf = 2"
    using vals(1) by (metis length_map length_Cons list.size(3) numeral_2_eq_2)
  have v0: "max_profit (outdf ! 0) = Fin 3" "max_profit_far (outdf ! 0) = Fin 2"
    using vals(2,3) l by (metis nth_map nth_Cons_0 zero_less_numeral)+
  have n1: "''max_profit'' \<notin> set (pass_through p)"
    and n2: "''max_profit_far'' \<notin> set (pass_through p)"
    by (simp_all add: pt)
  from far_selection_first_maximum [OF o n1 n2] obtain w where
    w: "profit_calc p ''residential'' ''underground'' two_sites tie_hooks = Inr w" and
    s: "map site outdf = index (w_df w)" and
    sel: "\<And>j. j < length outdf \<Longrightarrow>
           \<exists>m. m < nrows (w_profit w)
              \<and> max_profit_far (outdf ! j) = entry (w_fars w) m j
              \<and> max_profit (outdf ! j) = neg_inf_if_nan (entry (w_profit w) m j)
              \<and> (\<forall>i. i < nrows (w_profit w) \<longrightarrow>
                    neg_inf_if_nan (entry (w_profit w) i j) \<le> max_profit (outdf ! j))
              \<and> (\<forall>i. i < m \<longrightarrow>
                    neg_inf_if_nan (entry (w_profit w) i j) < max_profit (outdf ! j))"
    by blast
  have "0 < length outdf"
    using l by simp
  from sel [OF this] obtain m where
    "m < nrows (w_profit w)"
    "entry (w_fars w) m 0 = Fin 2"
    "neg_inf_if_nan (entry (w_profit w) m 0) = Fin 3"
    "\<forall>i. i < nrows (w_profit w) \<longrightarrow> neg_inf_if_nan (entry (w_profit w) i 0) \<le> Fin 3"
    "\<forall>i. i < m \<longrightarrow> neg_inf_if_nan (entry (w_profit w) i 0) < Fin 3"
    unfolding v0 by metis
  then show ?thesis
    using p o w s vals(1) by metis
qed


section \<open>Cost per area in the reference table\<close>

text \<open>
  The comparison of the search is a strict weak order, so on ascending breakpoints the
  bisection, whatever bounds it starts from, ends at the first breakpoint not below the
  key.
\<close>

lemma npy_less_irrefl: "\<not> npy_less a a"
  by (cases a) (simp_all add: npy_less_def)

lemma npy_less_trans: "npy_less a b \<Longrightarrow> npy_less b c \<Longrightarrow> npy_less a c"
  by (cases a; cases b; cases c) (simp_all add: npy_less_def)

lemma npy_less_negtrans: "\<not> npy_less a b \<Longrightarrow> \<not> npy_less b c \<Longrightarrow> \<not> npy_less a c"
  by (cases a; cases b; cases c) (simp_all add: npy_less_def)

lemma first_not_below_le: "first_not_below arr v \<le> length arr"
  by (induction arr) simp_all

lemma first_not_below_before: "i < first_not_below arr v \<Longrightarrow> npy_less (arr ! i) v"
proof (induction arr arbitrary: i)
  case Nil
  then show ?case by simp
next
  case (Cons a as)
  then show ?case by (cases i) (simp_all split: if_splits)
qed

lemma first_not_below_at:
  "first_not_below arr v < length arr \<Longrightarrow> \<not> npy_less (arr ! first_not_below arr v) v"
  by (induction arr) auto

lemma ascending_after:
  assumes "ascending arr" "first_not_below arr v \<le> i" "i < length arr"
  shows "\<not> npy_less (arr ! i) v"
proof (cases "first_not_below arr v = i")
  case True
  then show ?thesis using first_not_below_at [of arr v] assms(3) by simp
next
  case False
  then have lt: "first_not_below arr v < i" using assms(2) by simp
  then have "\<not> npy_less (arr ! i) (arr ! first_not_below arr v)"
    using assms(1,3) by (simp add: ascending_def sorted_wrt_iff_nth_less)
  moreover have "\<not> npy_less (arr ! first_not_below arr v) v"
    using first_not_below_at [of arr v] lt assms(3) by simp
  ultimately show ?thesis by (rule npy_less_negtrans)
qed

lemma binsearch_first_not_below:
  "ascending arr \<Longrightarrow> min_idx \<le> first_not_below arr v \<Longrightarrow>
   first_not_below arr v \<le> max_idx \<Longrightarrow> max_idx \<le> length arr \<Longrightarrow>
   binsearch arr v min_idx max_idx = first_not_below arr v"
proof (induction arr v min_idx max_idx rule: binsearch.induct)
  case (1 arr key_val min_idx max_idx)
  let ?mid = "min_idx + (max_idx - min_idx) div 2"
  let ?f = "first_not_below arr key_val"
  note asc = "1.prems"(1) and lo = "1.prems"(2) and hi = "1.prems"(3) and len = "1.prems"(4)
  show ?case
  proof (cases "min_idx < max_idx")
    case False
    then show ?thesis
      using lo hi by (simp add: binsearch.simps [of arr key_val min_idx max_idx])
  next
    case True
    then have mid: "min_idx \<le> ?mid" "?mid < max_idx"
      by simp_all
    show ?thesis
    proof (cases "npy_less (arr ! ?mid) key_val")
      case less: True
      have ml: "?mid < length arr"
        using mid len by linarith
      have "\<not> ?f \<le> ?mid"
      proof
        assume "?f \<le> ?mid"
        then have "\<not> npy_less (arr ! ?mid) key_val"
          using ml by (rule ascending_after [OF asc])
        then show False
          using less by simp
      qed
      then have "?mid + 1 \<le> ?f"
        by simp
      then have "binsearch arr key_val (?mid + 1) max_idx = ?f"
        using "1.IH"(1) [OF True less asc] hi len by simp
      then show ?thesis
        using True less by (simp add: binsearch.simps [of arr key_val min_idx max_idx])
    next
      case nless: False
      have "\<not> ?mid < ?f"
        using first_not_below_before [of ?mid arr key_val] nless by blast
      then have "?f \<le> ?mid"
        by simp
      then have "binsearch arr key_val min_idx ?mid = ?f"
        using "1.IH"(2) [OF True nless asc lo] mid len by simp
      then show ?thesis
        using True nless by (simp add: binsearch.simps [of arr key_val min_idx max_idx])
    qed
  qed
qed

lemma searchsorted_keys_first_not_below:
  assumes "ascending arr"
  shows "idx \<le> length arr \<Longrightarrow>
         (npy_less last_key_val (hd keys) \<longrightarrow> idx \<le> first_not_below arr (hd keys)) \<Longrightarrow>
         (\<not> npy_less last_key_val (hd keys) \<longrightarrow>
            first_not_below arr (hd keys) \<le> (if idx < length arr then idx + 1 else length arr)) \<Longrightarrow>
         searchsorted_keys arr last_key_val idx keys = map (first_not_below arr) keys"
proof (induction keys arbitrary: last_key_val idx)
  case Nil
  then show ?case by simp
next
  case (Cons key_val keys)
  let ?f = "first_not_below arr key_val"
  have found: "(if npy_less last_key_val key_val then binsearch arr key_val idx (length arr)
         else binsearch arr key_val 0 (if idx < length arr then idx + 1 else length arr)) = ?f"
  proof (cases "npy_less last_key_val key_val")
    case True
    then show ?thesis
      using binsearch_first_not_below [OF assms, of idx key_val "length arr"] Cons.prems
        first_not_below_le [of arr key_val] by simp
  next
    case False
    then show ?thesis
      using binsearch_first_not_below [OF assms, of 0 key_val
          "if idx < length arr then idx + 1 else length arr"] Cons.prems by simp
  qed
  have rest: "searchsorted_keys arr key_val ?f keys = map (first_not_below arr) keys"
  proof (cases keys)
    case Nil
    then show ?thesis by simp
  next
    case (Cons k ks)
    have up: "npy_less key_val k \<longrightarrow> ?f \<le> first_not_below arr k"
    proof
      assume l: "npy_less key_val k"
      have "\<not> first_not_below arr k < ?f"
      proof
        assume "first_not_below arr k < ?f"
        then have "npy_less (arr ! first_not_below arr k) key_val"
          by (rule first_not_below_before)
        then have "npy_less (arr ! first_not_below arr k) k"
          using l by (rule npy_less_trans)
        moreover have "first_not_below arr k < length arr"
          using \<open>first_not_below arr k < ?f\<close> first_not_below_le [of arr key_val] by simp
        ultimately show False
          using first_not_below_at [of arr k] by simp
      qed
      then show "?f \<le> first_not_below arr k" by simp
    qed
    have down: "\<not> npy_less key_val k \<longrightarrow>
        first_not_below arr k \<le> (if ?f < length arr then ?f + 1 else length arr)"
    proof
      assume nl: "\<not> npy_less key_val k"
      show "first_not_below arr k \<le> (if ?f < length arr then ?f + 1 else length arr)"
      proof (cases "?f < length arr")
        case True
        then have "\<not> npy_less (arr ! ?f) key_val"
          by (rule first_not_below_at)
        then have "\<not> npy_less (arr ! ?f) k"
          using nl by (rule npy_less_negtrans)
        then have "\<not> ?f < first_not_below arr k"
          using first_not_below_before [of ?f arr k] by blast
        then show ?thesis using True by simp
      next
        case False
        then show ?thesis using first_not_below_le [of arr k] by simp
      qed
    qed
    show ?thesis
      using Cons.IH [of ?f key_val] up down Cons first_not_below_le [of arr key_val] by simp
  qed
  show ?case
    using found rest by (simp add: Let_def)
qed

lemma searchsorted_ascending:
  assumes "ascending arr"
  shows "searchsorted arr keys = map (first_not_below arr) keys"
proof (cases keys)
  case Nil
  then show ?thesis by (simp add: searchsorted_def)
next
  case (Cons k ks)
  have "searchsorted_keys arr k (length arr) (k # ks) = map (first_not_below arr) (k # ks)"
    using first_not_below_le [of arr k]
    by (intro searchsorted_keys_first_not_below [OF assms]) (simp_all add: npy_less_irrefl)
  then show ?thesis using Cons by (simp add: searchsorted_def)
qed

lemma length_searchsorted_keys [simp]: "length (searchsorted_keys arr l i keys) = length keys"
  by (induction keys arbitrary: l i) (simp_all add: Let_def)

lemma length_searchsorted [simp]: "length (searchsorted arr keys) = length keys"
  by (simp add: searchsorted_def Let_def split: list.splits)


lemma convert_types_defaults: "convert_types get_defaults = Inr default_arrays"
  by code_simp

lemma isnan_times_finite: "h \<noteq> 0 \<Longrightarrow> isnan (s * Fin h) \<longleftrightarrow> isnan s"
  by (cases s) simp_all

lemma building_cost_calc_entries:
  assumes "building_cost_calc p use_mix st = Inr cs" "height_per_story p = Fin h" "h \<noteq> 0"
    and "ascending (heights_for_costs p)"
  shows "length cs = length st"
    and "i < length st \<Longrightarrow>
           cs ! i = (if isnan (st ! i) then NaN
                     else bracket_cost p use_mix (st ! i * height_per_story p))"
  using assms
  by (auto simp add: building_cost_calc_def Let_def bracket_cost_def isnan_times_finite
        searchsorted_ascending split: if_splits)

lemma reference_dataframe_raw_stories:
  assumes "reference_dataframe p name mix pconfig = Inr r"
  shows "\<exists>bulk st. building_bulk p mix pconfig = Inr bulk
           \<and> stories_calc p pconfig bulk (parking_stalls_of p mix bulk) = Inr st
           \<and> length st = length (fars p)
           \<and> building_cost_calc p mix st = Inr (ref_build_cost_sqft r)
           \<and> ref_stories r = map ceil st
           \<and> ref_height r = map (\<lambda>s. ceil s * height_per_story p) st"
  using assms
  by (fastforce simp add: reference_dataframe_def ebind_eq_Inr Let_def column_of_def comp_def
        split: if_splits)

text \<open>
  Claim C4, as amended. For every entry of a reference frame the cost per area is the
  use-mix-weighted cost of the bracket whose breakpoint is the first one not below
  the stories times the height per story, the stories being what \<open>_stories\<close> returns
  for the bulk and the stalls of the frame, before they are rounded up; an entry with NaN
  stories has a NaN cost. The height column of the frame is the rounded stories times the
  height per story. (The breakpoints are ascending, the height per story is finite and
  not 0.)
\<close>

theorem reference_cost_per_area:
  assumes "reference_dataframe p name mix pconfig = Inr r"
    and "height_per_story p = Fin h" and "h \<noteq> 0"
    and "ascending (heights_for_costs p)"
  shows "\<exists>bulk st. building_bulk p mix pconfig = Inr bulk
           \<and> stories_calc p pconfig bulk (parking_stalls_of p mix bulk) = Inr st
           \<and> length st = length (fars p)
           \<and> ref_stories r = map ceil st
           \<and> ref_height r = map (\<lambda>s. ceil s * height_per_story p) st
           \<and> (\<forall>i. i < length st \<longrightarrow>
                 ref_build_cost_sqft r ! i =
                   (if isnan (st ! i) then NaN
                    else bracket_cost p mix (st ! i * height_per_story p)))"
proof -
  from reference_dataframe_raw_stories [OF assms(1)] obtain bulk st where
    b: "building_bulk p mix pconfig = Inr bulk"
       "stories_calc p pconfig bulk (parking_stalls_of p mix bulk) = Inr st" and
    st: "length st = length (fars p)" and
    cs: "building_cost_calc p mix st = Inr (ref_build_cost_sqft r)" and
    r: "ref_stories r = map ceil st"
       "ref_height r = map (\<lambda>s. ceil s * height_per_story p) st"
    by blast
  show ?thesis
    using b st r building_cost_calc_entries(2) [OF cs assms(2,3,4)] by blast
qed

lemma surface_reference_entry:
  "case reference_dataframe default_arrays ''residential'' [Fin 0, Fin 0, Fin 0, Fin 1]
          ''surface'' of
     Inl e \<Rightarrow> False
   | Inr r \<Rightarrow> ref_height r ! 3 = Fin 24 \<and> ref_build_cost_sqft r ! 3 = Fin 170
        \<and> bracket_cost default_arrays [Fin 0, Fin 0, Fin 0, Fin 1] (ref_height r ! 3) = Fin 190"
  by code_simp

text \<open>The stories of that entry as \<open>_stories\<close> returns them.\<close>

lemma surface_stories_entry:
  "case building_bulk default_arrays [Fin 0, Fin 0, Fin 0, Fin 1] ''surface'' of
     Inl e \<Rightarrow> False
   | Inr bulk \<Rightarrow>
       (case stories_calc default_arrays ''surface'' bulk
               (parking_stalls_of default_arrays [Fin 0, Fin 0, Fin 0, Fin 1] bulk) of
          Inl e \<Rightarrow> False
        | Inr st \<Rightarrow> st ! 3 = Fin (75/62))"
  by code_simp

text \<open>
  Claim C4, as stated, fails. In the default reference frame of the residential form under
  surface parking, the entry of far 0.75 has 2 stories and a height of 24, whose bracket
  costs 190 per area; its cost per area is 170, the bracket of the height 14.5 of its
  1.21 stories before rounding.
\<close>

theorem reference_cost_not_from_rounded_height:
  "\<exists>r. reference_dataframe default_arrays ''residential'' [Fin 0, Fin 0, Fin 0, Fin 1]
          ''surface'' = Inr r
       \<and> ref_height r ! 3 = Fin 24
       \<and> ref_build_cost_sqft r ! 3 = Fin 170
       \<and> bracket_cost default_arrays [Fin 0, Fin 0, Fin 0, Fin 1] (ref_height r ! 3) = Fin 190"
  using surface_reference_entry
  by (cases "reference_dataframe default_arrays ''residential'' [Fin 0, Fin 0, Fin 0, Fin 1]
          ''surface''") auto

theorem reference_cost_per_area_witness:
  "\<exists>r bulk st. reference_dataframe default_arrays ''residential'' [Fin 0, Fin 0, Fin 0, Fin 1]
          ''surface'' = Inr r
       \<and> building_bulk default_arrays [Fin 0, Fin 0, Fin 0, Fin 1] ''surface'' = Inr bulk
       \<and> stories_calc default_arrays ''surface'' bulk
           (parking_stalls_of default_arrays [Fin 0, Fin 0, Fin 0, Fin 1] bulk) = Inr st
       \<and> length st = 24
       \<and> st ! 3 = Fin (75/62)
       \<and> ref_height r = map (\<lambda>s. ceil s * Fin 12) st
       \<and> ref_build_cost_sqft r ! 3 =
           bracket_cost default_arrays [Fin 0, Fin 0, Fin 0, Fin 1] (Fin (75/62) * Fin 12)"
proof -
  obtain r where r: "reference_dataframe default_arrays ''residential''
      [Fin 0, Fin 0, Fin 0, Fin 1] ''surface'' = Inr r"
    using surface_reference_entry
    by (cases "reference_dataframe default_arrays ''residential'' [Fin 0, Fin 0, Fin 0, Fin 1]
          ''surface''") simp_all
  have h: "height_per_story default_arrays = Fin 12" and n: "(12::rat) \<noteq> 0"
    and l: "length (fars default_arrays) = 24"
    by (simp_all add: default_arrays_def)
  have asc: "ascending (heights_for_costs default_arrays)"
    by (simp add: default_arrays_def ascending_def npy_less_def)
  from reference_cost_per_area [OF r h n asc] obtain bulk st where
    b: "building_bulk default_arrays [Fin 0, Fin 0, Fin 0, Fin 1] ''surface'' = Inr bulk" and
    s: "stories_calc default_arrays ''surface'' bulk
           (parking_stalls_of default_arrays [Fin 0, Fin 0, Fin 0, Fin 1] bulk) = Inr st" and
    len: "length st = 24" and
    ht: "ref_height r = map (\<lambda>s. ceil s * Fin 12) st" and
    cost: "\<And>i. i < length st \<Longrightarrow> ref_build_cost_sqft r ! i =
                   (if isnan (st ! i) then NaN
                    else bracket_cost default_arrays [Fin 0, Fin 0, Fin 0, Fin 1]
                           (st ! i * Fin 12))"
    unfolding h l by blast
  have s3: "st ! 3 = Fin (75/62)"
    using surface_stories_entry b s by simp
  have "ref_build_cost_sqft r ! 3 =
          bracket_cost default_arrays [Fin 0, Fin 0, Fin 0, Fin 1] (Fin (75/62) * Fin 12)"
    using cost [of 3] len s3 by simp
  then show ?thesis
    using r b s len s3 ht by blast
qed

end
